theory Spec2Isabelle
  imports Complex_Main "HOL-Library.Sublist"
begin

section \<open>Python strings\<close>

text \<open>
  A Python \<open>str\<close> is modelled as a \<open>string\<close>: the list of its code points, each below
  256. The helpers below are the string methods the renderer calls.
\<close>

definition CRLF :: string where
  "CRLF = [CHR 0x0D, CHR 0x0A]"

text \<open>\<open>str.isspace\<close> on one character: the code points below 256 that Python strips.\<close>

definition py_isspace :: "char \<Rightarrow> bool" where
  "py_isspace c = (c \<in> set [CHR 0x09, CHR 0x0A, CHR 0x0B, CHR 0x0C, CHR 0x0D,
                             CHR 0x1C, CHR 0x1D, CHR 0x1E, CHR 0x1F, CHR 0x20,
                             CHR 0x85, CHR 0xA0])"

text \<open>\<open>s.strip()\<close>\<close>

definition py_strip :: "string \<Rightarrow> string" where
  "py_strip s = rev (dropWhile py_isspace (rev (dropWhile py_isspace s)))"

text \<open>\<open>s.startswith(p)\<close>\<close>

definition startswith :: "string \<Rightarrow> string \<Rightarrow> bool" where
  "startswith s p = (take (length p) s = p)"

text \<open>\<open>sub in s\<close>\<close>

fun py_contains :: "string \<Rightarrow> string \<Rightarrow> bool" where
  "py_contains sub [] = (sub = [])"
| "py_contains sub (c # cs) = (startswith (c # cs) sub \<or> py_contains sub cs)"

text \<open>
  \<open>s.split(sep)\<close> for a non-empty separator: the pieces between the occurrences of
  \<open>sep\<close>, found from the left. \<open>cur\<close> is the piece being read.
\<close>

function py_split_aux :: "string \<Rightarrow> string \<Rightarrow> string \<Rightarrow> string list" where
  "py_split_aux sep cur [] = [cur]"
| "py_split_aux sep cur (c # cs) =
     (if sep \<noteq> [] \<and> startswith (c # cs) sep
      then cur # py_split_aux sep [] (drop (length sep) (c # cs))
      else py_split_aux sep (cur @ [c]) cs)"
  by pat_completeness auto
termination
  by (relation "measure (\<lambda>(sep, cur, s). length s)") auto

definition py_split :: "string \<Rightarrow> string \<Rightarrow> string list" where
  "py_split s sep = py_split_aux sep [] s"

text \<open>\<open>s.split(sep, 1)\<close> for a one-character separator: at most two pieces.\<close>

definition py_split1 :: "string \<Rightarrow> char \<Rightarrow> string list" where
  "py_split1 s sep =
     (case dropWhile (\<lambda>c. c \<noteq> sep) s of
        [] \<Rightarrow> [s]
      | _ # rest \<Rightarrow> [takeWhile (\<lambda>c. c \<noteq> sep) s, rest])"

section \<open>Python numbers\<close>

text \<open>
  A Python \<open>float\<close> is an IEEE 754 double: a rational number of the double grid, an
  infinity or NaN. The sign of zero is not kept: no operation of the renderer depends on
  it. A number held by the renderer is an \<open>int\<close> (unbounded) or a \<open>float\<close>.
\<close>

datatype pyfloat = Finite rat | PosInf | NegInf | NaN

datatype pynum = PInt int | PFloat pyfloat

text \<open>
  A value decoded from JSON, as \<open>json.loads\<close> returns it: \<open>JNull\<close> is Python's \<open>None\<close>,
  \<open>JObj\<close> a \<open>dict\<close> given by its items (keys distinct), \<open>JArr\<close> a \<open>list\<close>.
\<close>

datatype jval =
    JNull
  | JBool bool
  | JInt int
  | JFloat pyfloat
  | JStr string
  | JArr "jval list"
  | JObj "(string \<times> jval) list"

text \<open>
  The exceptions of the renderer. \<open>ValueError\<close> and \<open>RuntimeError\<close> carry the message
  the source gives them; a \<open>BuiltinError\<close> is raised by the interpreter inside \<open>int()\<close>,
  \<open>float()\<close> or an attribute access, and names the operation and its operand.
\<close>

datatype builtin_error =
    IntOfStr string
  | IntOfNaN
  | IntOfInf
  | IntOfType jval
  | FloatOfStr string
  | FloatOfInt int
  | FloatOfType jval
  | NoAttrGet jval
  | IndexOutOfRange

datatype exn =
    ValueError string
  | RuntimeError string
  | BuiltinError builtin_error

subsection \<open>Rounding to a double\<close>

text \<open>The number of binary digits of \<open>n\<close>, for \<open>n \<ge> 0\<close>.\<close>

function bitlen :: "int \<Rightarrow> nat" where
  "bitlen n = (if n \<le> 0 then 0 else Suc (bitlen (n div 2)))"
  by pat_completeness auto
termination
  by (relation "measure nat") auto

declare bitlen.simps [simp del]

definition pow2 :: "int \<Rightarrow> rat" where
  "pow2 e = (if 0 \<le> e then 2 ^ nat e else 1 / 2 ^ nat (- e))"

text \<open>For \<open>a > 0\<close>, the exponent \<open>e\<close> with \<open>2 ^ e \<le> a < 2 ^ (e + 1)\<close>.\<close>

definition ilog2 :: "rat \<Rightarrow> int" where
  "ilog2 a = (if 1 \<le> a then int (bitlen \<lfloor>a\<rfloor>) - 1
              else - int (bitlen (\<lceil>1 / a\<rceil> - 1)))"

text \<open>The nearest integer, a tie going to the even one.\<close>

definition round_half_even :: "rat \<Rightarrow> int" where
  "round_half_even q =
     (let f = \<lfloor>q\<rfloor>; d = q - of_int f
      in if d < 1 / 2 then f
         else if 1 / 2 < d then f + 1
         else if even f then f else f + 1)"

text \<open>
  The nearest point of the double grid (53 significant bits, exponents from -1022, with
  subnormals), before the overflow check.
\<close>

definition round_grid :: "rat \<Rightarrow> rat" where
  "round_grid q =
     (if q = 0 then 0
      else let a = \<bar>q\<bar>;
               u = pow2 (max (ilog2 a) (- 1022) - 52)
           in sgn q * (of_int (round_half_even (a / u)) * u))"

text \<open>The double a real operation returns: the rounded result, or an infinity on overflow.\<close>

definition round_double :: "rat \<Rightarrow> pyfloat" where
  "round_double q =
     (let r = round_grid q
      in if pow2 1024 \<le> r then PosInf
         else if r \<le> - pow2 1024 then NegInf
         else Finite r)"

subsection \<open>Arithmetic of the time codec\<close>

definition trunc :: "rat \<Rightarrow> int" where
  "trunc q = (if 0 \<le> q then \<lfloor>q\<rfloor> else \<lceil>q\<rceil>)"

text \<open>C's \<open>fmod\<close> on finite doubles, \<open>wx \<noteq> 0\<close>: exact, with the sign of \<open>vx\<close>.\<close>

definition fmod :: "rat \<Rightarrow> rat \<Rightarrow> rat" where
  "fmod vx wx = vx - wx * of_int (trunc (vx / wx))"

text \<open>
  CPython's \<open>float_divmod\<close> on finite doubles, for a divisor \<open>wx\<close> with \<open>\<bar>wx\<bar> \<ge> 1\<close> (the
  codec divides by 3600 and by 60, so no quotient overflows): the pair
  \<open>(vx // wx, vx % wx)\<close>. Each floating-point operation rounds.
\<close>

definition float_divmod :: "rat \<Rightarrow> rat \<Rightarrow> rat \<times> rat" where
  "float_divmod vx wx =
     (let mod0 = fmod vx wx;
          div0 = round_grid (round_grid (vx - mod0) / wx);
          adjust = (mod0 \<noteq> 0 \<and> ((wx < 0) \<noteq> (mod0 < 0)));
          mod1 = (if adjust then round_grid (mod0 + wx) else mod0);
          div1 = (if adjust then round_grid (div0 - 1) else div0);
          floordiv =
            (if div1 \<noteq> 0
             then (let fl = of_int \<lfloor>div1\<rfloor>
                   in if 1 / 2 < round_grid (div1 - fl) then round_grid (fl + 1) else fl)
             else 0)
      in (floordiv, mod1))"

text \<open>\<open>x // c\<close> and \<open>x % c\<close> for a number \<open>x\<close> and a non-zero integer constant \<open>c\<close>.\<close>

fun py_floordiv :: "pynum \<Rightarrow> int \<Rightarrow> pynum" where
  "py_floordiv (PInt n) c = PInt (n div c)"
| "py_floordiv (PFloat (Finite v)) c = PFloat (Finite (fst (float_divmod v (of_int c))))"
| "py_floordiv (PFloat _) c = PFloat NaN"

fun py_mod :: "pynum \<Rightarrow> int \<Rightarrow> pynum" where
  "py_mod (PInt n) c = PInt (n mod c)"
| "py_mod (PFloat (Finite v)) c = PFloat (Finite (snd (float_divmod v (of_int c))))"
| "py_mod (PFloat _) c = PFloat NaN"

text \<open>\<open>x < 0\<close> and \<open>x == float('inf')\<close>\<close>

fun num_negative :: "pynum \<Rightarrow> bool" where
  "num_negative (PInt n) = (n < 0)"
| "num_negative (PFloat (Finite v)) = (v < 0)"
| "num_negative (PFloat NegInf) = True"
| "num_negative (PFloat _) = False"

fun num_is_inf :: "pynum \<Rightarrow> bool" where
  "num_is_inf (PFloat PosInf) = True"
| "num_is_inf _ = False"

text \<open>\<open>int(x)\<close> for a number: a float is truncated towards zero; NaN and the infinities raise.\<close>

fun int_of_num :: "pynum \<Rightarrow> exn + int" where
  "int_of_num (PInt n) = Inr n"
| "int_of_num (PFloat (Finite v)) = Inr (trunc v)"
| "int_of_num (PFloat NaN) = Inl (BuiltinError IntOfNaN)"
| "int_of_num (PFloat _) = Inl (BuiltinError IntOfInf)"

subsection \<open>Integers and text\<close>

definition is_digit :: "char \<Rightarrow> bool" where
  "is_digit c = (48 \<le> (of_char c :: int) \<and> (of_char c :: int) \<le> 57)"

definition digit_val :: "char \<Rightarrow> int" where
  "digit_val c = of_char c - 48"

definition digit_char :: "int \<Rightarrow> char" where
  "digit_char d = char_of (48 + d)"

text \<open>The value of a string of decimal digits.\<close>

definition int_of_digits :: "string \<Rightarrow> int" where
  "int_of_digits ds = foldl (\<lambda>a c. 10 * a + digit_val c) 0 ds"

text \<open>The decimal digits of \<open>n\<close>, for \<open>n \<ge> 0\<close>.\<close>

function digits_of_int :: "int \<Rightarrow> string" where
  "digits_of_int n =
     (if n < 10 then [digit_char n] else digits_of_int (n div 10) @ [digit_char (n mod 10)])"
  by pat_completeness auto
termination
  by (relation "measure nat") auto

declare digits_of_int.simps [simp del]

text \<open>\<open>str(n)\<close>, which is also \<open>f"{n}"\<close>\<close>

definition py_str_int :: "int \<Rightarrow> string" where
  "py_str_int n =
     (if n < 0 then CHR ''-'' # digits_of_int (- n) else digits_of_int n)"

text \<open>\<open>f"{n:02d}"\<close>: padded with zeros to two characters, the sign counting as one.\<close>

definition fmt_02d :: "int \<Rightarrow> string" where
  "fmt_02d n =
     (if n < 0 then py_str_int n
      else if n < 10 then CHR ''0'' # py_str_int n
      else py_str_int n)"

text \<open>
  The characters \<open>int()\<close> and \<open>float()\<close> skip at both ends of a string: ASCII white space
  and the two white-space code points between 128 and 255.
\<close>

definition num_space :: "char \<Rightarrow> bool" where
  "num_space c = (c \<in> set [CHR 0x09, CHR 0x0A, CHR 0x0B, CHR 0x0C, CHR 0x0D, CHR 0x20,
                            CHR 0x85, CHR 0xA0])"

definition num_strip :: "string \<Rightarrow> string" where
  "num_strip s = rev (dropWhile num_space (rev (dropWhile num_space s)))"

text \<open>
  Digits with single underscores between them: \<open>prev\<close> says that the character before
  was a digit. The empty string is not accepted.
\<close>

fun digits_ok :: "bool \<Rightarrow> string \<Rightarrow> bool" where
  "digits_ok prev [] = prev"
| "digits_ok prev (c # cs) =
     (if is_digit c then digits_ok True cs
      else c = CHR ''_'' \<and> prev \<and> cs \<noteq> [] \<and> is_digit (hd cs) \<and> digits_ok False cs)"

text \<open>A leading sign: whether it is a minus, and the rest.\<close>

definition split_sign :: "string \<Rightarrow> bool \<times> string" where
  "split_sign s =
     (case s of
        [] \<Rightarrow> (False, s)
      | c # r \<Rightarrow> if c = CHR ''-'' then (True, r) else if c = CHR ''+'' then (False, r)
                 else (False, s))"

text \<open>
  CPython refuses a decimal string of more than \<open>int_max_str_digits\<close> digits (the
  default of \<open>sys.int_info\<close>); the check is made only above 640 digits.
\<close>

definition int_max_str_digits :: nat where
  "int_max_str_digits = 4300"

text \<open>\<open>int(s)\<close> for a string, base 10.\<close>

definition int_of_str :: "string \<Rightarrow> exn + int" where
  "int_of_str s =
     (let (neg, body) = split_sign (num_strip s);
          ds = filter (\<lambda>c. c \<noteq> CHR ''_'') body
      in if \<not> digits_ok False body then Inl (BuiltinError (IntOfStr s))
         else if 640 < length ds \<and> 0 < int_max_str_digits \<and> int_max_str_digits < length ds
         then Inl (BuiltinError (IntOfStr s))
         else Inr (if neg then - int_of_digits ds else int_of_digits ds))"

subsection \<open>Floats and text\<close>

definition lower :: "char \<Rightarrow> char" where
  "lower c = (if 65 \<le> (of_char c :: int) \<and> (of_char c :: int) \<le> 90
              then char_of ((of_char c :: int) + 32) else c)"

text \<open>
  The underscores of a float literal: each must stand between two digits. The result is
  the string without them, or \<open>None\<close>. \<open>prev\<close> is the character before, if any.
\<close>

fun drop_underscores :: "char option \<Rightarrow> string \<Rightarrow> string option" where
  "drop_underscores prev [] = (if prev = Some (CHR ''_'') then None else Some [])"
| "drop_underscores prev (c # cs) =
     (if c = CHR ''_''
      then (case prev of
              None \<Rightarrow> None
            | Some p \<Rightarrow> if is_digit p then drop_underscores (Some c) cs else None)
      else if prev = Some (CHR ''_'') \<and> \<not> is_digit c then None
      else map_option ((#) c) (drop_underscores (Some c) cs))"

text \<open>
  A decimal literal without sign: digits, an optional point and digits, an optional
  exponent; at least one digit before the exponent. The result is its exact value.
\<close>

definition parse_decimal :: "string \<Rightarrow> rat option" where
  "parse_decimal s =
     (let ip = takeWhile is_digit s;
          r1 = dropWhile is_digit s;
          has_point = (r1 \<noteq> [] \<and> hd r1 = CHR ''.'');
          fp = (if has_point then takeWhile is_digit (tl r1) else []);
          r2 = (if has_point then dropWhile is_digit (tl r1) else r1);
          mant = of_int (int_of_digits (ip @ fp)) / 10 ^ length fp
      in if ip = [] \<and> fp = [] then None
         else if r2 = [] then Some mant
         else if hd r2 = CHR ''e'' \<or> hd r2 = CHR ''E''
         then (let (eneg, r3) = split_sign (tl r2);
                   ed = takeWhile is_digit r3
               in if ed = [] \<or> dropWhile is_digit r3 \<noteq> [] then None
                  else if eneg then Some (mant / 10 ^ nat (int_of_digits ed))
                  else Some (mant * 10 ^ nat (int_of_digits ed)))
         else None)"

text \<open>\<open>float(s)\<close> for a string.\<close>

definition float_of_str :: "string \<Rightarrow> exn + pyfloat" where
  "float_of_str s =
     (case drop_underscores None (num_strip s) of
        None \<Rightarrow> Inl (BuiltinError (FloatOfStr s))
      | Some t \<Rightarrow>
          let (neg, body) = split_sign t;
              low = map lower body
          in if low = ''inf'' \<or> low = ''infinity'' then Inr (if neg then NegInf else PosInf)
             else if low = ''nan'' then Inr NaN
             else (case parse_decimal body of
                     None \<Rightarrow> Inl (BuiltinError (FloatOfStr s))
                   | Some q \<Rightarrow> Inr (round_double (if neg then - q else q))))"

section \<open>Time-code codec (soap\_handler.py)\<close>

text \<open>\<open>format_time\<close>: seconds to \<open>H:MM:SS\<close>. The conversions \<open>int(...)\<close> can raise.\<close>

definition format_time :: "pynum \<Rightarrow> exn + string" where
  "format_time seconds =
     (if num_negative seconds \<or> num_is_inf seconds then Inr ''00:00:00''
      else
        case int_of_num (py_floordiv seconds 3600) of
          Inl e \<Rightarrow> Inl e
        | Inr hours \<Rightarrow>
            (case int_of_num (py_floordiv (py_mod seconds 3600) 60) of
               Inl e \<Rightarrow> Inl e
             | Inr minutes \<Rightarrow>
                 (case int_of_num (py_mod seconds 60) of
                    Inl e \<Rightarrow> Inl e
                  | Inr secs \<Rightarrow>
                      Inr (py_str_int hours @ '':'' @ fmt_02d minutes @ '':'' @ fmt_02d secs))))"

text \<open>\<open>map(int, parts)\<close>, unpacked: the first conversion that raises ends it.\<close>

fun map_int :: "string list \<Rightarrow> exn + int list" where
  "map_int [] = Inr []"
| "map_int (p # ps) =
     (case int_of_str p of
        Inl e \<Rightarrow> Inl e
      | Inr n \<Rightarrow> (case map_int ps of Inl e \<Rightarrow> Inl e | Inr ns \<Rightarrow> Inr (n # ns)))"

text \<open>
  The body of the \<open>try\<close> block of \<open>parse_time\<close>. Unpacking \<open>map(int, parts)\<close> into three
  (or two) names raises when the count differs; \<open>map\<close> keeps the count, so that case
  does not occur. \<open>parts[0]\<close> raises on an empty list; \<open>split\<close> never returns one.
\<close>

definition parse_time_try :: "string \<Rightarrow> exn + pynum" where
  "parse_time_try time_str =
     (let parts = py_split time_str '':''
      in if length parts = 3
         then (case map_int parts of
                 Inr [hours, minutes, seconds] \<Rightarrow> Inr (PInt (hours * 3600 + minutes * 60 + seconds))
               | Inr _ \<Rightarrow> Inl (ValueError ''unpack'')
               | Inl e \<Rightarrow> Inl e)
         else if length parts = 2
         then (case map_int parts of
                 Inr [minutes, seconds] \<Rightarrow> Inr (PInt (minutes * 60 + seconds))
               | Inr _ \<Rightarrow> Inl (ValueError ''unpack'')
               | Inl e \<Rightarrow> Inl e)
         else (case parts of
                 [] \<Rightarrow> Inl (BuiltinError IndexOutOfRange)
               | p # _ \<Rightarrow>
                   (case float_of_str p of
                      Inl e \<Rightarrow> Inl e
                    | Inr f \<Rightarrow> Inr (PFloat f))))"

text \<open>\<open>parse_time\<close>: \<open>H:MM:SS\<close> to seconds; the bare \<open>except\<close> turns every exception into 0.0.\<close>

definition parse_time :: "string \<Rightarrow> pynum" where
  "parse_time time_str =
     (case parse_time_try time_str of
        Inl e \<Rightarrow> PFloat (Finite 0)
      | Inr v \<Rightarrow> v)"




section \<open>Discovery engine (ssdp\_server.py)\<close>

record ssdp_server =
  device_uuid :: string
  location_url :: string

text \<open>An address is \<open>(ip, port)\<close>; a datagram handed to \<open>sock.sendto\<close> is \<open>(payload, addr)\<close>.\<close>

type_synonym addr = "string \<times> int"
type_synonym datagram = "string \<times> addr"

definition SSDP_ADDR :: string where
  "SSDP_ADDR = ''239.255.255.250''"

definition SSDP_PORT :: int where
  "SSDP_PORT = 1900"

text \<open>
  The loop of \<open>_handle_msearch\<close> over the lines of the message: the first line that starts
  with \<open>ST:\<close> sets \<open>st\<close> to what follows its first colon, stripped, and ends the loop.
  \<open>None\<close> is Python's \<open>None\<close>. A line that starts with \<open>ST:\<close> has a colon, so the split
  has two pieces; the last case is the \<open>IndexError\<close> that cannot happen.
\<close>

fun find_st :: "string list \<Rightarrow> string option" where
  "find_st [] = None"
| "find_st (line # rest) =
     (if startswith line ''ST:''
      then (case py_split1 line (CHR '':'') of
              [_, v] \<Rightarrow> Some (py_strip v)
            | _ \<Rightarrow> None)
      else find_st rest)"

text \<open>\<open>_send_msearch_response\<close>: the one datagram it hands to \<open>sendto\<close>.\<close>

definition send_msearch_response :: "ssdp_server \<Rightarrow> addr \<Rightarrow> string \<Rightarrow> datagram list" where
  "send_msearch_response srv addr st =
     [(''HTTP/1.1 200 OK'' @ CRLF @
       ''CACHE-CONTROL: max-age=1800'' @ CRLF @
       ''EXT:'' @ CRLF @
       ''LOCATION: '' @ location_url srv @ CRLF @
       ''SERVER: Linux/4.x UPnP/1.1 Pi-Audio-Renderer/1.0'' @ CRLF @
       ''ST: '' @ st @ CRLF @
       ''USN: uuid:'' @ device_uuid srv @ ''::'' @ st @ CRLF @
       CRLF, addr)]"

text \<open>\<open>_handle_msearch\<close>: the datagrams sent for one search request from \<open>addr\<close>.\<close>

definition handle_msearch :: "ssdp_server \<Rightarrow> string \<Rightarrow> addr \<Rightarrow> datagram list" where
  "handle_msearch srv message addr =
     (case find_st (py_split message CRLF) of
        None \<Rightarrow> []
      | Some st \<Rightarrow>
          if st = [] then []
          else if st = ''ssdp:all'' \<or>
                  st = ''upnp:rootdevice'' \<or>
                  st = ''uuid:'' @ device_uuid srv \<or>
                  st = ''urn:schemas-upnp-org:device:MediaRenderer:1'' \<or>
                  st = ''urn:schemas-upnp-org:service:AVTransport:1'' \<or>
                  st = ''urn:schemas-upnp-org:service:RenderingControl:1'' \<or>
                  st = ''urn:schemas-upnp-org:service:ConnectionManager:1''
          then send_msearch_response srv addr st
          else [])"

text \<open>One pass of \<open>_listen_loop\<close> on a received, decoded datagram.\<close>

definition listen_step :: "ssdp_server \<Rightarrow> string \<Rightarrow> addr \<Rightarrow> datagram list" where
  "listen_step srv message addr =
     (if py_contains ''M-SEARCH'' message then handle_msearch srv message addr else [])"

text \<open>\<open>_send_notify\<close>: one NOTIFY datagram to the multicast group.\<close>

definition send_notify :: "ssdp_server \<Rightarrow> string \<Rightarrow> string \<Rightarrow> datagram" where
  "send_notify srv nt nts =
     (''NOTIFY * HTTP/1.1'' @ CRLF @
      ''HOST: '' @ SSDP_ADDR @ '':'' @ py_str_int SSDP_PORT @ CRLF @
      ''CACHE-CONTROL: max-age=1800'' @ CRLF @
      ''LOCATION: '' @ location_url srv @ CRLF @
      ''NT: '' @ nt @ CRLF @
      ''NTS: '' @ nts @ CRLF @
      ''SERVER: Linux/4.x UPnP/1.1 Pi-Audio-Renderer/1.0'' @ CRLF @
      ''USN: uuid:'' @ device_uuid srv @ ''::'' @ nt @ CRLF @
      CRLF, (SSDP_ADDR, SSDP_PORT))"

text \<open>The list \<open>services\<close> of \<open>_send_alive\<close>, and the notifications it sends.\<close>

definition alive_services :: "ssdp_server \<Rightarrow> string list" where
  "alive_services srv =
     [''upnp:rootdevice'',
      ''uuid:'' @ device_uuid srv,
      ''urn:schemas-upnp-org:device:MediaRenderer:1'',
      ''urn:schemas-upnp-org:service:AVTransport:1'',
      ''urn:schemas-upnp-org:service:RenderingControl:1'',
      ''urn:schemas-upnp-org:service:ConnectionManager:1'']"

definition send_alive :: "ssdp_server \<Rightarrow> datagram list" where
  "send_alive srv = map (\<lambda>service. send_notify srv service ''ssdp:alive'') (alive_services srv)"

text \<open>The list \<open>services\<close> of \<open>_send_byebye\<close>, and the notifications it sends.\<close>

definition byebye_services :: "ssdp_server \<Rightarrow> string list" where
  "byebye_services srv =
     [''upnp:rootdevice'',
      ''uuid:'' @ device_uuid srv,
      ''urn:schemas-upnp-org:device:MediaRenderer:1'']"

definition send_byebye :: "ssdp_server \<Rightarrow> datagram list" where
  "send_byebye srv = map (\<lambda>service. send_notify srv service ''ssdp:byebye'') (byebye_services srv)"

text \<open>
  The search targets the discovery engine answers, as the specification lists them:
  everything, the root device, this device's UUID, the renderer device type and the
  three service types.
\<close>

definition accepted_targets :: "ssdp_server \<Rightarrow> string set" where
  "accepted_targets srv =
     {''ssdp:all'', ''upnp:rootdevice'', ''uuid:'' @ device_uuid srv,
      ''urn:schemas-upnp-org:device:MediaRenderer:1'',
      ''urn:schemas-upnp-org:service:AVTransport:1'',
      ''urn:schemas-upnp-org:service:RenderingControl:1'',
      ''urn:schemas-upnp-org:service:ConnectionManager:1''}"

text \<open>The \<open>ST\<close> header of a search request, as the listener reads it.\<close>

definition st_header :: "string \<Rightarrow> string option" where
  "st_header message = find_st (py_split message CRLF)"

text \<open>The header block of a reply, one header per line, each line ended by CRLF.\<close>

definition reply_lines :: "ssdp_server \<Rightarrow> string \<Rightarrow> string list" where
  "reply_lines srv st =
     [''HTTP/1.1 200 OK'',
      ''CACHE-CONTROL: max-age=1800'',
      ''EXT:'',
      ''LOCATION: '' @ location_url srv,
      ''SERVER: Linux/4.x UPnP/1.1 Pi-Audio-Renderer/1.0'',
      ''ST: '' @ st,
      ''USN: uuid:'' @ device_uuid srv @ ''::'' @ st,
      '''']"

section \<open>Playback bridge (player/mpv\_controller.py)\<close>

text \<open>
  The playback engine is outside the program. Each call of \<open>_send_command\<close> meets one
  \<open>ipc_event\<close>: whether connecting the socket succeeds (asked only when no socket is
  open), and how the exchange on the socket ends:
  \<^item> \<open>SendTimeout\<close>, \<open>RecvTimeout\<close>: \<open>socket.timeout\<close> in \<open>sendall\<close> or \<open>recv\<close>
    (no response within the two seconds);
  \<^item> \<open>SendError\<close>, \<open>RecvError\<close>: any other exception of \<open>sendall\<close> or \<open>recv\<close>;
  \<^item> \<open>RecvClosed\<close>: \<open>recv\<close> returns no bytes before any data;
  \<^item> \<open>BadReply\<close>: the bytes read do not decode to JSON;
  \<^item> \<open>Reply r\<close>: the bytes read decode to the JSON value \<open>r\<close>.
  The engine's behaviour over a run is a function from the number of the call to its
  event.
\<close>

datatype exchange =
    SendTimeout
  | SendError
  | RecvTimeout
  | RecvError
  | RecvClosed
  | BadReply
  | Reply jval

record ipc_event =
  connect_ok :: bool
  exchange :: exchange

type_synonym engine = "nat \<Rightarrow> ipc_event"

text \<open>
  The fields of \<open>MPVController\<close> the claims are about. \<open>socket_open\<close> says that
  \<open>self.socket\<close> is not \<open>None\<close>. Two fields are not in the source: \<open>ipc_calls\<close> counts
  the calls of \<open>_send_command\<close>, and \<open>outgoing\<close> records every request built, with the
  \<open>request_id\<close> attached to it, in the order of issue.
\<close>

record mpv_controller =
  socket_open :: bool
  current_url :: "string option"
  current_state :: string
  current_volume :: int
  current_position :: pynum
  current_duration :: pynum
  request_id :: int
  ipc_calls :: nat
  outgoing :: "(jval list \<times> int) list"

text \<open>\<open>__init__\<close>, given \<open>config.get_default_volume()\<close>\<close>

definition init_mpv :: "int \<Rightarrow> mpv_controller" where
  "init_mpv default_volume =
     \<lparr>socket_open = False, current_url = None, current_state = ''STOPPED'',
      current_volume = default_volume, current_position = PInt 0, current_duration = PInt 0,
      request_id = 0, ipc_calls = 0, outgoing = []\<rparr>"

text \<open>\<open>_connect_socket\<close>\<close>

definition connect_socket :: "ipc_event \<Rightarrow> mpv_controller \<Rightarrow> bool \<times> mpv_controller" where
  "connect_socket ev p =
     (if socket_open p then (True, p)
      else if connect_ok ev then (True, p\<lparr>socket_open := True\<rparr>)
      else (False, p\<lparr>socket_open := False\<rparr>))"

text \<open>
  \<open>_send_command\<close>, run under the lock, so one call at a time. The result is the
  response, \<open>JNull\<close> for \<open>None\<close>.
\<close>

definition send_command :: "engine \<Rightarrow> jval list \<Rightarrow> mpv_controller \<Rightarrow> jval \<times> mpv_controller" where
  "send_command E command p =
     (let ev = E (ipc_calls p);
          p0 = p\<lparr>ipc_calls := ipc_calls p + 1\<rparr>
      in case connect_socket ev p0 of
           (False, p1) \<Rightarrow> (JNull, p1)
         | (True, p1) \<Rightarrow>
             let p2 = p1\<lparr>request_id := request_id p1 + 1\<rparr>;
                 p3 = p2\<lparr>outgoing := outgoing p2 @ [(command, request_id p2)]\<rparr>
             in case exchange ev of
                  Reply r \<Rightarrow> (r, p3)
                | RecvClosed \<Rightarrow> (JNull, p3)
                | SendTimeout \<Rightarrow> (JNull, p3)
                | RecvTimeout \<Rightarrow> (JNull, p3)
                | SendError \<Rightarrow> (JNull, p3\<lparr>socket_open := False\<rparr>)
                | RecvError \<Rightarrow> (JNull, p3\<lparr>socket_open := False\<rparr>)
                | BadReply \<Rightarrow> (JNull, p3\<lparr>socket_open := False\<rparr>))"

text \<open>The truth value of a Python object.\<close>

fun truthy :: "jval \<Rightarrow> bool" where
  "truthy JNull = False"
| "truthy (JBool b) = b"
| "truthy (JInt n) = (n \<noteq> 0)"
| "truthy (JFloat f) = (f \<noteq> Finite 0)"
| "truthy (JStr s) = (s \<noteq> [])"
| "truthy (JArr xs) = (xs \<noteq> [])"
| "truthy (JObj kvs) = (kvs \<noteq> [])"

text \<open>\<open>response.get(key)\<close>: only a \<open>dict\<close> has the method.\<close>

fun dict_get :: "jval \<Rightarrow> string \<Rightarrow> exn + jval" where
  "dict_get (JObj kvs) key = Inr (case map_of kvs key of None \<Rightarrow> JNull | Some v \<Rightarrow> v)"
| "dict_get r key = Inl (BuiltinError (NoAttrGet r))"

text \<open>\<open>response and response.get('error') == 'success'\<close>\<close>

definition reply_success :: "jval \<Rightarrow> exn + bool" where
  "reply_success response =
     (if \<not> truthy response then Inr False
      else case dict_get response ''error'' of
             Inl e \<Rightarrow> Inl e
           | Inr v \<Rightarrow> Inr (v = JStr ''success''))"

text \<open>\<open>_get_property\<close>\<close>

definition get_property :: "engine \<Rightarrow> string \<Rightarrow> mpv_controller \<Rightarrow> (exn + jval) \<times> mpv_controller" where
  "get_property E property_name p =
     (let (response, p1) = send_command E [JStr ''get_property'', JStr property_name] p
      in case reply_success response of
           Inl e \<Rightarrow> (Inl e, p1)
         | Inr True \<Rightarrow> (dict_get response ''data'', p1)
         | Inr False \<Rightarrow> (Inr JNull, p1))"

text \<open>\<open>play\<close>\<close>

definition play :: "engine \<Rightarrow> string \<Rightarrow> mpv_controller \<Rightarrow> (exn + bool) \<times> mpv_controller" where
  "play E url p =
     (let p0 = p\<lparr>current_state := ''TRANSITIONING'', current_url := Some url\<rparr>;
          (response, p1) = send_command E [JStr ''loadfile'', JStr url, JStr ''replace''] p0
      in case reply_success response of
           Inl e \<Rightarrow> (Inl e, p1)
         | Inr True \<Rightarrow> (Inr True, p1\<lparr>current_state := ''PLAYING''\<rparr>)
         | Inr False \<Rightarrow> (Inr False, p1\<lparr>current_state := ''STOPPED''\<rparr>))"

text \<open>\<open>pause\<close> and \<open>resume\<close>\<close>

definition pause :: "engine \<Rightarrow> mpv_controller \<Rightarrow> (exn + bool) \<times> mpv_controller" where
  "pause E p =
     (let (response, p1) = send_command E [JStr ''set_property'', JStr ''pause'', JBool True] p
      in case reply_success response of
           Inl e \<Rightarrow> (Inl e, p1)
         | Inr True \<Rightarrow> (Inr True, p1\<lparr>current_state := ''PAUSED_PLAYBACK''\<rparr>)
         | Inr False \<Rightarrow> (Inr False, p1))"

definition resume :: "engine \<Rightarrow> mpv_controller \<Rightarrow> (exn + bool) \<times> mpv_controller" where
  "resume E p =
     (let (response, p1) = send_command E [JStr ''set_property'', JStr ''pause'', JBool False] p
      in case reply_success response of
           Inl e \<Rightarrow> (Inl e, p1)
         | Inr True \<Rightarrow> (Inr True, p1\<lparr>current_state := ''PLAYING''\<rparr>)
         | Inr False \<Rightarrow> (Inr False, p1))"

text \<open>\<open>stop\<close>: the response is not looked at.\<close>

definition stop :: "engine \<Rightarrow> mpv_controller \<Rightarrow> bool \<times> mpv_controller" where
  "stop E p =
     (let (response, p1) = send_command E [JStr ''stop''] p
      in (True, p1\<lparr>current_state := ''STOPPED'', current_url := None,
                    current_position := PInt 0, current_duration := PInt 0\<rparr>))"

text \<open>\<open>set_volume\<close>\<close>

definition set_volume :: "engine \<Rightarrow> int \<Rightarrow> mpv_controller \<Rightarrow> (exn + bool) \<times> mpv_controller" where
  "set_volume E level p =
     (let level' = max 0 (min 100 level);
          (response, p1) = send_command E [JStr ''set_property'', JStr ''volume'', JInt level'] p
      in case reply_success response of
           Inl e \<Rightarrow> (Inl e, p1)
         | Inr True \<Rightarrow> (Inr True, p1\<lparr>current_volume := level'\<rparr>)
         | Inr False \<Rightarrow> (Inr False, p1))"

text \<open>\<open>int(v)\<close> and \<open>float(v)\<close> for a value that is not \<open>None\<close>.\<close>

fun int_of_jval :: "jval \<Rightarrow> exn + int" where
  "int_of_jval (JBool b) = Inr (if b then 1 else 0)"
| "int_of_jval (JInt n) = Inr n"
| "int_of_jval (JFloat f) = int_of_num (PFloat f)"
| "int_of_jval (JStr s) = int_of_str s"
| "int_of_jval v = Inl (BuiltinError (IntOfType v))"

fun float_of_jval :: "jval \<Rightarrow> exn + pyfloat" where
  "float_of_jval (JBool b) = Inr (Finite (if b then 1 else 0))"
| "float_of_jval (JInt n) =
     (case round_double (of_int n) of
        Finite r \<Rightarrow> Inr (Finite r)
      | _ \<Rightarrow> Inl (BuiltinError (FloatOfInt n)))"
| "float_of_jval (JFloat f) = Inr f"
| "float_of_jval (JStr s) = float_of_str s"
| "float_of_jval v = Inl (BuiltinError (FloatOfType v))"

text \<open>\<open>get_volume\<close>, \<open>get_position\<close>, \<open>get_duration\<close>\<close>

definition get_volume :: "engine \<Rightarrow> mpv_controller \<Rightarrow> (exn + int) \<times> mpv_controller" where
  "get_volume E p =
     (case get_property E ''volume'' p of
        (Inl e, p1) \<Rightarrow> (Inl e, p1)
      | (Inr volume, p1) \<Rightarrow>
          if volume \<noteq> JNull
          then (case int_of_jval volume of
                  Inl e \<Rightarrow> (Inl e, p1)
                | Inr n \<Rightarrow> (Inr n, p1\<lparr>current_volume := n\<rparr>))
          else (Inr (current_volume p1), p1))"

definition get_position :: "engine \<Rightarrow> mpv_controller \<Rightarrow> (exn + pynum) \<times> mpv_controller" where
  "get_position E p =
     (case get_property E ''time-pos'' p of
        (Inl e, p1) \<Rightarrow> (Inl e, p1)
      | (Inr position, p1) \<Rightarrow>
          if position \<noteq> JNull
          then (case float_of_jval position of
                  Inl e \<Rightarrow> (Inl e, p1)
                | Inr f \<Rightarrow> (Inr (PFloat f), p1\<lparr>current_position := PFloat f\<rparr>))
          else (Inr (current_position p1), p1))"

definition get_duration :: "engine \<Rightarrow> mpv_controller \<Rightarrow> (exn + pynum) \<times> mpv_controller" where
  "get_duration E p =
     (case get_property E ''duration'' p of
        (Inl e, p1) \<Rightarrow> (Inl e, p1)
      | (Inr duration, p1) \<Rightarrow>
          if duration \<noteq> JNull
          then (case float_of_jval duration of
                  Inl e \<Rightarrow> (Inl e, p1)
                | Inr f \<Rightarrow> (Inr (PFloat f), p1\<lparr>current_duration := PFloat f\<rparr>))
          else (Inr (current_duration p1), p1))"

text \<open>A number as an item of a command.\<close>

fun jval_of_num :: "pynum \<Rightarrow> jval" where
  "jval_of_num (PInt n) = JInt n"
| "jval_of_num (PFloat f) = JFloat f"

text \<open>\<open>seek\<close>\<close>

definition seek :: "engine \<Rightarrow> pynum \<Rightarrow> mpv_controller \<Rightarrow> (exn + bool) \<times> mpv_controller" where
  "seek E position p =
     (let (response, p1) = send_command E [JStr ''seek'', jval_of_num position, JStr ''absolute''] p
      in case reply_success response of
           Inl e \<Rightarrow> (Inl e, p1)
         | Inr True \<Rightarrow> (Inr True, p1\<lparr>current_position := position\<rparr>)
         | Inr False \<Rightarrow> (Inr False, p1))"

text \<open>The dictionary \<open>get_status\<close> returns.\<close>

record status =
  st_state :: string
  st_url :: "string option"
  st_volume :: int
  st_position :: pynum
  st_duration :: pynum

definition status_of :: "mpv_controller \<Rightarrow> status" where
  "status_of p =
     \<lparr>st_state = current_state p, st_url = current_url p, st_volume = current_volume p,
      st_position = current_position p, st_duration = current_duration p\<rparr>"

text \<open>\<open>get_status\<close>: position and duration are refreshed only while playing.\<close>

definition get_status :: "engine \<Rightarrow> mpv_controller \<Rightarrow> (exn + status) \<times> mpv_controller" where
  "get_status E p =
     (if current_state p = ''PLAYING''
      then (case get_position E p of
              (Inl e, p1) \<Rightarrow> (Inl e, p1)
            | (Inr _, p1) \<Rightarrow>
                (case get_duration E p1 of
                   (Inl e, p2) \<Rightarrow> (Inl e, p2)
                 | (Inr _, p2) \<Rightarrow> (Inr (status_of p2), p2)))
      else (Inr (status_of p), p))"

text \<open>\<open>is_playing\<close>\<close>

definition is_playing :: "engine \<Rightarrow> mpv_controller \<Rightarrow> (exn + bool) \<times> mpv_controller" where
  "is_playing E p =
     (case get_property E ''pause'' p of
        (Inl e, p1) \<Rightarrow> (Inl e, p1)
      | (Inr paused, p1) \<Rightarrow>
          if paused = JBool False then (Inr True, p1\<lparr>current_state := ''PLAYING''\<rparr>)
          else if paused = JBool True then (Inr False, p1\<lparr>current_state := ''PAUSED_PLAYBACK''\<rparr>)
          else (Inr False, p1\<lparr>current_state := ''STOPPED''\<rparr>))"

text \<open>
  Any run of the bridge is a sequence of calls of \<open>_send_command\<close>, since every public
  method reaches the engine through it and the lock admits one call at a time.
\<close>

fun send_commands :: "engine \<Rightarrow> jval list list \<Rightarrow> mpv_controller \<Rightarrow> mpv_controller" where
  "send_commands E [] p = p"
| "send_commands E (command # commands) p = send_commands E commands (snd (send_command E command p))"

section \<open>Control services (services/*.py)\<close>

text \<open>
  The arguments of an action are a dictionary from names to strings; the result of an
  action is an ordered dictionary, given by its items.
\<close>

type_synonym args = "string \<rightharpoonup> string"
type_synonym result = "(string \<times> string) list"

text \<open>\<open>args.get(key, dflt)\<close>\<close>

definition arg_get :: "args \<Rightarrow> string \<Rightarrow> string \<Rightarrow> string" where
  "arg_get a key dflt = (case a key of None \<Rightarrow> dflt | Some v \<Rightarrow> v)"

text \<open>
  The state of the three service objects. \<open>volume_before_mute\<close> is \<open>None\<close> while the
  attribute does not exist (\<open>hasattr\<close> is false). All services share one player.
\<close>

record av_transport =
  current_uri :: string
  current_uri_metadata :: string

record rendering_control =
  muted :: bool
  volume_before_mute :: "int option"

record renderer =
  player :: mpv_controller
  avt :: av_transport
  rcs :: rendering_control

definition init_renderer :: "int \<Rightarrow> renderer" where
  "init_renderer default_volume =
     \<lparr>player = init_mpv default_volume,
      avt = \<lparr>current_uri = [], current_uri_metadata = []\<rparr>,
      rcs = \<lparr>muted = False, volume_before_mute = None\<rparr>\<rparr>"

subsection \<open>AVTransport (av\_transport.py)\<close>

definition handle_SetAVTransportURI :: "args \<Rightarrow> renderer \<Rightarrow> (exn + result) \<times> renderer" where
  "handle_SetAVTransportURI a s =
     (Inr [], s\<lparr>avt := \<lparr>current_uri = arg_get a ''CurrentURI'' [],
                          current_uri_metadata = arg_get a ''CurrentURIMetaData'' []\<rparr>\<rparr>)"

definition handle_Play :: "engine \<Rightarrow> args \<Rightarrow> renderer \<Rightarrow> (exn + result) \<times> renderer" where
  "handle_Play E a s =
     (if current_uri (avt s) = [] then (Inl (ValueError ''No URI set''), s)
      else case play E (current_uri (avt s)) (player s) of
             (Inl e, p) \<Rightarrow> (Inl e, s\<lparr>player := p\<rparr>)
           | (Inr success, p) \<Rightarrow>
               if \<not> success then (Inl (RuntimeError ''Failed to start playback''), s\<lparr>player := p\<rparr>)
               else (Inr [], s\<lparr>player := p\<rparr>))"

definition handle_Pause :: "engine \<Rightarrow> args \<Rightarrow> renderer \<Rightarrow> (exn + result) \<times> renderer" where
  "handle_Pause E a s =
     (case pause E (player s) of
        (Inl e, p) \<Rightarrow> (Inl e, s\<lparr>player := p\<rparr>)
      | (Inr _, p) \<Rightarrow> (Inr [], s\<lparr>player := p\<rparr>))"

definition handle_Stop :: "engine \<Rightarrow> args \<Rightarrow> renderer \<Rightarrow> (exn + result) \<times> renderer" where
  "handle_Stop E a s =
     (case stop E (player s) of
        (_, p) \<Rightarrow> (Inr [], s\<lparr>player := p\<rparr>))"

definition handle_Seek :: "engine \<Rightarrow> args \<Rightarrow> renderer \<Rightarrow> (exn + result) \<times> renderer" where
  "handle_Seek E a s =
     (let unit = arg_get a ''Unit'' ''ABS_TIME'';
          target = arg_get a ''Target'' ''00:00:00''
      in if unit = ''ABS_TIME'' \<or> unit = ''REL_TIME''
         then (case seek E (parse_time target) (player s) of
                 (Inl e, p) \<Rightarrow> (Inl e, s\<lparr>player := p\<rparr>)
               | (Inr _, p) \<Rightarrow> (Inr [], s\<lparr>player := p\<rparr>))
         else (Inr [], s))"

definition handle_GetTransportInfo :: "engine \<Rightarrow> args \<Rightarrow> renderer \<Rightarrow> (exn + result) \<times> renderer" where
  "handle_GetTransportInfo E a s =
     (case get_status E (player s) of
        (Inl e, p) \<Rightarrow> (Inl e, s\<lparr>player := p\<rparr>)
      | (Inr status, p) \<Rightarrow>
          (Inr [(''CurrentTransportState'', st_state status),
                (''CurrentTransportStatus'', ''OK''),
                (''CurrentSpeed'', ''1'')], s\<lparr>player := p\<rparr>))"

definition handle_GetPositionInfo :: "engine \<Rightarrow> args \<Rightarrow> renderer \<Rightarrow> (exn + result) \<times> renderer" where
  "handle_GetPositionInfo E a s =
     (case get_status E (player s) of
        (Inl e, p) \<Rightarrow> (Inl e, s\<lparr>player := p\<rparr>)
      | (Inr status, p) \<Rightarrow>
          (case format_time (st_duration status) of
             Inl e \<Rightarrow> (Inl e, s\<lparr>player := p\<rparr>)
           | Inr track_duration \<Rightarrow>
               (case format_time (st_position status) of
                  Inl e \<Rightarrow> (Inl e, s\<lparr>player := p\<rparr>)
                | Inr rel_time \<Rightarrow>
                    (Inr [(''Track'', ''1''),
                          (''TrackDuration'', track_duration),
                          (''TrackMetaData'', current_uri_metadata (avt s)),
                          (''TrackURI'', current_uri (avt s)),
                          (''RelTime'', rel_time),
                          (''AbsTime'', rel_time),
                          (''RelCount'', ''0''),
                          (''AbsCount'', ''0'')], s\<lparr>player := p\<rparr>))))"

definition handle_GetMediaInfo :: "engine \<Rightarrow> args \<Rightarrow> renderer \<Rightarrow> (exn + result) \<times> renderer" where
  "handle_GetMediaInfo E a s =
     (case get_status E (player s) of
        (Inl e, p) \<Rightarrow> (Inl e, s\<lparr>player := p\<rparr>)
      | (Inr status, p) \<Rightarrow>
          (case format_time (st_duration status) of
             Inl e \<Rightarrow> (Inl e, s\<lparr>player := p\<rparr>)
           | Inr media_duration \<Rightarrow>
               (Inr [(''NrTracks'', ''1''),
                     (''MediaDuration'', media_duration),
                     (''CurrentURI'', current_uri (avt s)),
                     (''CurrentURIMetaData'', current_uri_metadata (avt s)),
                     (''NextURI'', []),
                     (''NextURIMetaData'', []),
                     (''PlayMedium'', ''NETWORK''),
                     (''RecordMedium'', ''NOT_IMPLEMENTED''),
                     (''WriteStatus'', ''NOT_IMPLEMENTED'')], s\<lparr>player := p\<rparr>)))"

text \<open>
  \<open>AVTransportService.handle_action\<close>: \<open>getattr\<close> finds a handler exactly for the names
  of the methods \<open>_handle_...\<close> of the class.
\<close>

definition avt_handle_action :: "engine \<Rightarrow> string \<Rightarrow> args \<Rightarrow> renderer \<Rightarrow> (exn + result) \<times> renderer" where
  "avt_handle_action E action a s =
     (if action = ''SetAVTransportURI'' then handle_SetAVTransportURI a s
      else if action = ''Play'' then handle_Play E a s
      else if action = ''Pause'' then handle_Pause E a s
      else if action = ''Stop'' then handle_Stop E a s
      else if action = ''Seek'' then handle_Seek E a s
      else if action = ''GetTransportInfo'' then handle_GetTransportInfo E a s
      else if action = ''GetPositionInfo'' then handle_GetPositionInfo E a s
      else if action = ''GetMediaInfo'' then handle_GetMediaInfo E a s
      else (Inl (ValueError (''Unknown action: '' @ action)), s))"

subsection \<open>RenderingControl (rendering\_control.py)\<close>

definition handle_GetVolume :: "engine \<Rightarrow> args \<Rightarrow> renderer \<Rightarrow> (exn + result) \<times> renderer" where
  "handle_GetVolume E a s =
     (case get_volume E (player s) of
        (Inl e, p) \<Rightarrow> (Inl e, s\<lparr>player := p\<rparr>)
      | (Inr volume, p) \<Rightarrow> (Inr [(''CurrentVolume'', py_str_int volume)], s\<lparr>player := p\<rparr>))"

definition handle_SetVolume :: "engine \<Rightarrow> args \<Rightarrow> renderer \<Rightarrow> (exn + result) \<times> renderer" where
  "handle_SetVolume E a s =
     (case int_of_str (arg_get a ''DesiredVolume'' ''50'') of
        Inl e \<Rightarrow> (Inl e, s)
      | Inr volume \<Rightarrow>
          (case set_volume E volume (player s) of
             (Inl e, p) \<Rightarrow> (Inl e, s\<lparr>player := p\<rparr>)
           | (Inr _, p) \<Rightarrow> (Inr [], s\<lparr>player := p\<rparr>)))"

definition handle_GetMute :: "args \<Rightarrow> renderer \<Rightarrow> (exn + result) \<times> renderer" where
  "handle_GetMute a s = (Inr [(''CurrentMute'', if muted (rcs s) then ''1'' else ''0'')], s)"

definition handle_SetMute :: "engine \<Rightarrow> args \<Rightarrow> renderer \<Rightarrow> (exn + result) \<times> renderer" where
  "handle_SetMute E a s =
     (let desired_mute = arg_get a ''DesiredMute'' ''0'';
          m = (desired_mute = ''1'' \<or> desired_mute = ''true'' \<or> desired_mute = ''True'');
          s0 = s\<lparr>rcs := (rcs s)\<lparr>muted := m\<rparr>\<rparr>
      in if m
         then (case get_volume E (player s0) of
                 (Inl e, p) \<Rightarrow> (Inl e, s0\<lparr>player := p\<rparr>)
               | (Inr volume, p) \<Rightarrow>
                   (let s1 = s0\<lparr>player := p, rcs := (rcs s0)\<lparr>volume_before_mute := Some volume\<rparr>\<rparr>
                    in case set_volume E 0 (player s1) of
                         (Inl e, p') \<Rightarrow> (Inl e, s1\<lparr>player := p'\<rparr>)
                       | (Inr _, p') \<Rightarrow> (Inr [], s1\<lparr>player := p'\<rparr>)))
         else (case volume_before_mute (rcs s0) of
                 None \<Rightarrow> (Inr [], s0)
               | Some v \<Rightarrow>
                   (case set_volume E v (player s0) of
                      (Inl e, p) \<Rightarrow> (Inl e, s0\<lparr>player := p\<rparr>)
                    | (Inr _, p) \<Rightarrow> (Inr [], s0\<lparr>player := p\<rparr>))))"

definition rcs_handle_action :: "engine \<Rightarrow> string \<Rightarrow> args \<Rightarrow> renderer \<Rightarrow> (exn + result) \<times> renderer" where
  "rcs_handle_action E action a s =
     (if action = ''GetVolume'' then handle_GetVolume E a s
      else if action = ''SetVolume'' then handle_SetVolume E a s
      else if action = ''GetMute'' then handle_GetMute a s
      else if action = ''SetMute'' then handle_SetMute E a s
      else (Inl (ValueError (''Unknown action: '' @ action)), s))"

subsection \<open>ConnectionManager (connection\_manager.py)\<close>

definition PROTOCOL_INFO :: string where
  "PROTOCOL_INFO =
     ''http-get:*:audio/mpeg:*,'' @
     ''http-get:*:audio/mp3:*,'' @
     ''http-get:*:audio/mp4:*,'' @
     ''http-get:*:audio/x-m4a:*,'' @
     ''http-get:*:audio/aac:*,'' @
     ''http-get:*:audio/flac:*,'' @
     ''http-get:*:audio/x-flac:*,'' @
     ''http-get:*:audio/ogg:*,'' @
     ''http-get:*:audio/vorbis:*,'' @
     ''http-get:*:audio/wav:*,'' @
     ''http-get:*:audio/x-wav:*,'' @
     ''http-get:*:audio/L16:*,'' @
     ''http-get:*:application/ogg:*''"

definition handle_GetProtocolInfo :: "args \<Rightarrow> renderer \<Rightarrow> (exn + result) \<times> renderer" where
  "handle_GetProtocolInfo a s = (Inr [(''Source'', []), (''Sink'', PROTOCOL_INFO)], s)"

definition handle_GetCurrentConnectionIDs :: "args \<Rightarrow> renderer \<Rightarrow> (exn + result) \<times> renderer" where
  "handle_GetCurrentConnectionIDs a s = (Inr [(''ConnectionIDs'', ''0'')], s)"

definition handle_GetCurrentConnectionInfo :: "args \<Rightarrow> renderer \<Rightarrow> (exn + result) \<times> renderer" where
  "handle_GetCurrentConnectionInfo a s =
     (Inr [(''RcsID'', ''0''),
           (''AVTransportID'', ''0''),
           (''ProtocolInfo'', []),
           (''PeerConnectionManager'', []),
           (''PeerConnectionID'', ''-1''),
           (''Direction'', ''Input''),
           (''Status'', ''OK'')], s)"

definition cm_handle_action :: "engine \<Rightarrow> string \<Rightarrow> args \<Rightarrow> renderer \<Rightarrow> (exn + result) \<times> renderer" where
  "cm_handle_action E action a s =
     (if action = ''GetProtocolInfo'' then handle_GetProtocolInfo a s
      else if action = ''GetCurrentConnectionIDs'' then handle_GetCurrentConnectionIDs a s
      else if action = ''GetCurrentConnectionInfo'' then handle_GetCurrentConnectionInfo a s
      else (Inl (ValueError (''Unknown action: '' @ action)), s))"

section \<open>Control gateway (http\_server.py)\<close>

datatype service = AVTransport | RenderingControl | ConnectionManager

fun SERVICE_TYPE :: "service \<Rightarrow> string" where
  "SERVICE_TYPE AVTransport = ''urn:schemas-upnp-org:service:AVTransport:1''"
| "SERVICE_TYPE RenderingControl = ''urn:schemas-upnp-org:service:RenderingControl:1''"
| "SERVICE_TYPE ConnectionManager = ''urn:schemas-upnp-org:service:ConnectionManager:1''"

text \<open>\<open>service.handle_action\<close>, for the service object the route selected.\<close>

fun handle_action :: "service \<Rightarrow> engine \<Rightarrow> string \<Rightarrow> args \<Rightarrow> renderer \<Rightarrow> (exn + result) \<times> renderer" where
  "handle_action AVTransport = avt_handle_action"
| "handle_action RenderingControl = rcs_handle_action"
| "handle_action ConnectionManager = cm_handle_action"

text \<open>The route of \<open>do_POST\<close>: the first control path the request path contains.\<close>

definition route :: "string \<Rightarrow> service option" where
  "route path =
     (if py_contains ''/AVTransport/control'' path then Some AVTransport
      else if py_contains ''/RenderingControl/control'' path then Some RenderingControl
      else if py_contains ''/ConnectionManager/control'' path then Some ConnectionManager
      else None)"

text \<open>
  What \<open>parse_soap_request\<close> returns for a body it can parse. Parsing the XML and writing
  it are done by the XML library; \<open>do_POST\<close> is modelled from the parsed request
  (\<open>None\<close> when the body does not parse) to the content of the HTTP response.
\<close>

record soap_request =
  action :: string
  service_type :: string
  args :: args

text \<open>
  The HTTP responses of \<open>do_POST\<close>: status 200 with the response envelope of
  \<open>create_soap_response(action, service_type, args)\<close>; status 500 with the fault envelope
  of \<open>create_soap_error(error_code, error_description)\<close>; \<open>send_error(code, message)\<close>.
\<close>

datatype http_response =
    SoapResponse string string result
  | SoapFault int string
  | HttpError int string

fun status_code :: "http_response \<Rightarrow> int" where
  "status_code (SoapResponse _ _ _) = 200"
| "status_code (SoapFault _ _) = 500"
| "status_code (HttpError code _) = code"


text \<open>
  \<open>str(e)\<close>: the message the source gave the exception, or for an error of the
  interpreter's own the message \<open>msg\<close> the interpreter gives it.
\<close>

fun exn_str :: "(builtin_error \<Rightarrow> string) \<Rightarrow> exn \<Rightarrow> string" where
  "exn_str msg (ValueError m) = m"
| "exn_str msg (RuntimeError m) = m"
| "exn_str msg (BuiltinError b) = msg b"

text \<open>\<open>do_POST\<close>\<close>

definition do_POST ::
  "(builtin_error \<Rightarrow> string) \<Rightarrow> engine \<Rightarrow> string \<Rightarrow> soap_request option \<Rightarrow> renderer
     \<Rightarrow> http_response \<times> renderer" where
  "do_POST msg E path request s =
     (case request of
        None \<Rightarrow> (SoapFault 401 ''Invalid Action'', s)
      | Some req \<Rightarrow>
          (case route path of
             None \<Rightarrow> (HttpError 404 ''Service Not Found'', s)
           | Some svc \<Rightarrow>
               (case handle_action svc E (action req) (args req) s of
                  (Inr response_args, s') \<Rightarrow>
                    (SoapResponse (action req) (SERVICE_TYPE svc) response_args, s')
                | (Inl e, s') \<Rightarrow> (SoapFault 501 (exn_str msg e), s'))))"


section \<open>Engine failure\<close>

text \<open>
  An exchange fails when it ends without a response (time-out, I/O error, closed
  socket, bytes that are no JSON) or with a response that is not a success: one that is
  empty, or an object whose \<open>error\<close> is not \<open>success\<close>. The engine fails the command
  issued from the player state \<open>p\<close> when the socket cannot be connected or the exchange
  of that call fails.
\<close>

definition exchange_fails :: "ipc_event \<Rightarrow> bool" where
  "exchange_fails ev =
     (case exchange ev of
        Reply r \<Rightarrow> reply_success r = Inr False
      | _ \<Rightarrow> True)"

definition engine_fails :: "engine \<Rightarrow> mpv_controller \<Rightarrow> bool" where
  "engine_fails E p =
     ((\<not> socket_open p \<and> \<not> connect_ok (E (ipc_calls p))) \<or> exchange_fails (E (ipc_calls p)))"

section \<open>Example inputs\<close>

text \<open>A renderer with the default UUID of \<open>config.py\<close>, and three search requests.\<close>

definition example_ssdp :: ssdp_server where
  "example_ssdp =
     \<lparr>device_uuid = ''12345678-1234-1234-1234-123456789012'',
      location_url = ''http://192.168.1.10:8080/description.xml''\<rparr>"

definition search_rendering :: string where
  "search_rendering =
     ''M-SEARCH * HTTP/1.1'' @ CRLF @
     ''HOST: 239.255.255.250:1900'' @ CRLF @
     ''MX: 2'' @ CRLF @
     ''ST: urn:schemas-upnp-org:service:RenderingControl:1'' @ CRLF @ CRLF"

definition search_printer :: string where
  "search_printer =
     ''M-SEARCH * HTTP/1.1'' @ CRLF @
     ''HOST: 239.255.255.250:1900'' @ CRLF @
     ''ST: urn:schemas-upnp-org:device:Printer:1'' @ CRLF @ CRLF"

definition search_no_target :: string where
  "search_no_target =
     ''M-SEARCH * HTTP/1.1'' @ CRLF @
     ''HOST: 239.255.255.250:1900'' @ CRLF @ CRLF"

text \<open>
  Engines: one that acknowledges every command, one that never answers. A renderer that
  is loading a track. A message table for the interpreter's own errors.
\<close>

definition ack_engine :: engine where
  "ack_engine n = \<lparr>connect_ok = True, exchange = Reply (JObj [(''error'', JStr ''success'')])\<rparr>"

definition silent_engine :: engine where
  "silent_engine n = \<lparr>connect_ok = True, exchange = RecvTimeout\<rparr>"

text \<open>
  An engine whose volume stands at 130, the maximum mpv allows by default: it
  acknowledges every command and reports 130.0 as the data of every property.
\<close>

definition boosted_engine :: engine where
  "boosted_engine n =
     \<lparr>connect_ok = True,
      exchange = Reply (JObj [(''data'', JFloat (Finite 130)), (''error'', JStr ''success'')])\<rparr>"

definition loading_renderer :: renderer where
  "loading_renderer =
     \<lparr>player = (init_mpv 50)\<lparr>current_state := ''TRANSITIONING'',
                                 current_url := Some ''http://x/y.mp3''\<rparr>,
      avt = \<lparr>current_uri = ''http://x/y.mp3'', current_uri_metadata = []\<rparr>,
      rcs = \<lparr>muted = False, volume_before_mute = None\<rparr>\<rparr>"

definition plain_msg :: "builtin_error \<Rightarrow> string" where
  "plain_msg b = ''error''"

definition no_args :: args where
  "no_args = Map.empty"

definition request_of :: "string \<Rightarrow> service \<Rightarrow> args \<Rightarrow> soap_request" where
  "request_of name svc a = \<lparr>action = name, service_type = SERVICE_TYPE svc, args = a\<rparr>"

text \<open>Arguments of \<open>SetVolume\<close> and \<open>SetMute\<close> as a control point sends them.\<close>

definition loud_args :: args where
  "loud_args = [''InstanceID'' \<mapsto> ''0'', ''Channel'' \<mapsto> ''Master'', ''DesiredVolume'' \<mapsto> ''150'']"

definition mute_args :: args where
  "mute_args = [''InstanceID'' \<mapsto> ''0'', ''Channel'' \<mapsto> ''Master'', ''DesiredMute'' \<mapsto> ''1'']"

definition unmute_args :: args where
  "unmute_args = [''InstanceID'' \<mapsto> ''0'', ''Channel'' \<mapsto> ''Master'', ''DesiredMute'' \<mapsto> ''0'']"


section \<open>Invariant of the request identifiers\<close>

text \<open>
  The identifiers of the requests issued so far increase strictly, and none exceeds the
  counter \<open>request_id\<close>.
\<close>

definition ids_ok :: "mpv_controller \<Rightarrow> bool" where
  "ids_ok p =
     (sorted_wrt (<) (map snd (outgoing p)) \<and>
      (\<forall>i \<in> set (map snd (outgoing p)). i \<le> request_id p))"

section \<open>Playback bridge: one command\<close>

lemma send_command_outgoing:
  "outgoing (snd (send_command E c p)) = outgoing p \<and>
     request_id (snd (send_command E c p)) = request_id p \<or>
   outgoing (snd (send_command E c p)) = outgoing p @ [(c, request_id p + 1)] \<and>
     request_id (snd (send_command E c p)) = request_id p + 1"
  by (simp add: send_command_def connect_socket_def Let_def split: exchange.splits)

lemma send_command_frame:
  "current_state (snd (send_command E c p)) = current_state p \<and>
   current_url (snd (send_command E c p)) = current_url p \<and>
   current_volume (snd (send_command E c p)) = current_volume p \<and>
   current_position (snd (send_command E c p)) = current_position p \<and>
   current_duration (snd (send_command E c p)) = current_duration p"
  by (simp add: send_command_def connect_socket_def Let_def split: exchange.splits)

lemma send_command_reply:
  "socket_open p \<or> connect_ok (E (ipc_calls p)) \<Longrightarrow> exchange (E (ipc_calls p)) = Reply r \<Longrightarrow>
   fst (send_command E c p) = r"
  by (auto simp: send_command_def connect_socket_def Let_def)

section \<open>Control gateway: faults\<close>







lemma route_avt: "route ''/AVTransport/control'' = Some AVTransport"
  by (simp add: route_def startswith_def)

subsection \<open>When the engine fails\<close>




lemma engine_fails_exchange: "exchange_fails (E (ipc_calls p)) \<Longrightarrow> engine_fails E p"
  by (simp add: engine_fails_def)
















section \<open>Transport service: Stop\<close>

lemma stop_result:
  "fst (stop E p) = True \<and>
   current_state (snd (stop E p)) = ''STOPPED'' \<and>
   current_url (snd (stop E p)) = None \<and>
   current_position (snd (stop E p)) = PInt 0 \<and>
   current_duration (snd (stop E p)) = PInt 0"
  by (simp add: stop_def split: prod.splits)

text \<open>
  C2. From every state of the renderer and whatever the engine does (it acknowledges, it
  reports an error, the connection fails, or no response comes), the \<open>Stop\<close> action
  answers with a success envelope and leaves the playback session in state \<open>STOPPED\<close>
  with the current URL cleared and position and duration reset to 0; \<open>stop\<close> itself
  returns \<open>True\<close>. The session is the player's: the transport service keeps its own
  \<open>current_uri\<close> for the next \<open>Play\<close>, and \<open>Stop\<close> leaves that field as it was.
\<close>

theorem stop_resets_session:
  assumes "route path = Some AVTransport" and "action req = ''Stop''"
  shows "fst (do_POST msg E path (Some req) s) =
           SoapResponse ''Stop'' ''urn:schemas-upnp-org:service:AVTransport:1'' [] \<and>
         current_state (player (snd (do_POST msg E path (Some req) s))) = ''STOPPED'' \<and>
         current_url (player (snd (do_POST msg E path (Some req) s))) = None \<and>
         current_position (player (snd (do_POST msg E path (Some req) s))) = PInt 0 \<and>
         current_duration (player (snd (do_POST msg E path (Some req) s))) = PInt 0 \<and>
         fst (stop E (player s)) = True \<and>
         avt (snd (do_POST msg E path (Some req) s)) = avt s"
  using assms stop_result [of E "player s"]
  by (auto simp: do_POST_def avt_handle_action_def handle_Stop_def split: prod.splits)

theorem stop_resets_session_witness:
  "route ''/AVTransport/control'' = Some AVTransport \<and>
   action (request_of ''Stop'' AVTransport no_args) = ''Stop'' \<and>
   current_state (player loading_renderer) = ''TRANSITIONING'' \<and>
   fst (do_POST plain_msg silent_engine ''/AVTransport/control''
          (Some (request_of ''Stop'' AVTransport no_args)) loading_renderer) =
     SoapResponse ''Stop'' ''urn:schemas-upnp-org:service:AVTransport:1'' [] \<and>
   current_state (player (snd (do_POST plain_msg silent_engine ''/AVTransport/control''
          (Some (request_of ''Stop'' AVTransport no_args)) loading_renderer))) = ''STOPPED'' \<and>
   current_url (player (snd (do_POST plain_msg silent_engine ''/AVTransport/control''
          (Some (request_of ''Stop'' AVTransport no_args)) loading_renderer))) = None"
proof -
  have h: "route ''/AVTransport/control'' = Some AVTransport" by (rule route_avt)
  have a: "action (request_of ''Stop'' AVTransport no_args) = ''Stop''" by (simp add: request_of_def)
  have t: "current_state (player loading_renderer) = ''TRANSITIONING''"
    by (simp add: loading_renderer_def)
  show ?thesis
    using h a t stop_resets_session [OF h a, of plain_msg silent_engine loading_renderer] by simp
qed

section \<open>Rendering service: volume\<close>

lemma set_volume_outgoing:
  "outgoing (snd (set_volume E v p)) = outgoing p \<or>
   outgoing (snd (set_volume E v p)) =
     outgoing p @ [([JStr ''set_property'', JStr ''volume'', JInt (max 0 (min 100 v))],
                    request_id (snd (set_volume E v p)))]"
proof -
  obtain r p1 where sc:
    "send_command E [JStr ''set_property'', JStr ''volume'', JInt (max 0 (min 100 v))] p = (r, p1)"
    by (cases "send_command E [JStr ''set_property'', JStr ''volume'', JInt (max 0 (min 100 v))] p")
  have out: "outgoing (snd (set_volume E v p)) = outgoing p1 \<and>
             request_id (snd (set_volume E v p)) = request_id p1"
    using sc by (simp add: set_volume_def Let_def split: sum.splits bool.splits)
  from send_command_outgoing [of E "[JStr ''set_property'', JStr ''volume'', JInt (max 0 (min 100 v))]" p] sc
  show ?thesis using out by auto
qed

lemma set_volume_volume:
  "current_volume (snd (set_volume E v p)) = current_volume p \<or>
   current_volume (snd (set_volume E v p)) = max 0 (min 100 v)"
proof -
  obtain r p1 where sc:
    "send_command E [JStr ''set_property'', JStr ''volume'', JInt (max 0 (min 100 v))] p = (r, p1)"
    by (cases "send_command E [JStr ''set_property'', JStr ''volume'', JInt (max 0 (min 100 v))] p")
  have "current_volume p1 = current_volume p"
    using send_command_frame [of E _ p] sc by (metis snd_conv)
  then show ?thesis
    using sc by (simp add: set_volume_def Let_def split: sum.splits bool.splits)
qed

lemma set_volume_ack:
  assumes "socket_open p \<or> connect_ok (E (ipc_calls p))"
    and "exchange (E (ipc_calls p)) = Reply r" and "reply_success r = Inr True"
  shows "fst (set_volume E v p) = Inr True \<and>
         current_volume (snd (set_volume E v p)) = max 0 (min 100 v)"
proof -
  obtain p1 where sc:
    "send_command E [JStr ''set_property'', JStr ''volume'', JInt (max 0 (min 100 v))] p = (r, p1)"
    using send_command_reply [of p E r "[JStr ''set_property'', JStr ''volume'', JInt (max 0 (min 100 v))]"]
      assms(1,2)
    by (metis prod.collapse)
  show ?thesis using sc assms(3) by (simp add: set_volume_def Let_def)
qed

lemma handle_SetVolume_player:
  "int_of_str (arg_get a ''DesiredVolume'' ''50'') = Inr v \<Longrightarrow>
   player (snd (handle_action RenderingControl E ''SetVolume'' a s)) = snd (set_volume E v (player s))"
  by (simp add: rcs_handle_action_def handle_SetVolume_def split: prod.splits sum.splits)

text \<open>
  C4. For every integer \<open>v\<close> that \<open>SetVolume\<close> is given (the value of its
  \<open>DesiredVolume\<close> argument), the action does what \<open>set_volume v\<close> does on the player:
  the level is clamped to \<open>max 0 (min 100 v)\<close>, which lies in [0,100]; the only command
  the action can issue is \<open>set_property volume\<close> with that clamped level; and if the
  session volume was in [0,100] before the call it is in [0,100] after it.
\<close>

theorem set_volume_clamps:
  assumes "int_of_str (arg_get a ''DesiredVolume'' ''50'') = Inr v"
  shows "0 \<le> max 0 (min 100 v) \<and> max 0 (min 100 v) \<le> (100::int) \<and>
   player (snd (handle_action RenderingControl E ''SetVolume'' a s)) =
     snd (set_volume E v (player s)) \<and>
   (outgoing (player (snd (handle_action RenderingControl E ''SetVolume'' a s))) =
      outgoing (player s) \<or>
    outgoing (player (snd (handle_action RenderingControl E ''SetVolume'' a s))) =
      outgoing (player s) @
        [([JStr ''set_property'', JStr ''volume'', JInt (max 0 (min 100 v))],
          request_id (player (snd (handle_action RenderingControl E ''SetVolume'' a s))))]) \<and>
   (0 \<le> current_volume (player s) \<and> current_volume (player s) \<le> 100 \<longrightarrow>
      0 \<le> current_volume (player (snd (handle_action RenderingControl E ''SetVolume'' a s))) \<and>
      current_volume (player (snd (handle_action RenderingControl E ''SetVolume'' a s))) \<le> 100)"
  unfolding handle_SetVolume_player [OF assms]
  using set_volume_outgoing [of E v "player s"] set_volume_volume [of E v "player s"] by auto

theorem set_volume_clamps_witness:
  "int_of_str (arg_get loud_args ''DesiredVolume'' ''50'') = Inr 150 \<and>
   outgoing (player (snd (handle_action RenderingControl ack_engine ''SetVolume'' loud_args
       (init_renderer 50)))) = [([JStr ''set_property'', JStr ''volume'', JInt 100], 1)] \<and>
   0 \<le> current_volume (player (init_renderer 50)) \<and>
   current_volume (player (init_renderer 50)) \<le> 100 \<and>
   current_volume (player (snd (handle_action RenderingControl ack_engine ''SetVolume'' loud_args
       (init_renderer 50)))) \<le> 100"
proof -
  have h: "int_of_str (arg_get loud_args ''DesiredVolume'' ''50'') = Inr 150" by code_simp
  have o: "outgoing (player (snd (handle_action RenderingControl ack_engine ''SetVolume'' loud_args
       (init_renderer 50)))) = [([JStr ''set_property'', JStr ''volume'', JInt 100], 1)]"
    by code_simp
  have v: "0 \<le> current_volume (player (init_renderer 50)) \<and>
           current_volume (player (init_renderer 50)) \<le> 100"
    by (simp add: init_renderer_def init_mpv_def)
  from set_volume_clamps [OF h, of ack_engine "init_renderer 50"] v
  have "current_volume (player (snd (handle_action RenderingControl ack_engine ''SetVolume''
       loud_args (init_renderer 50)))) \<le> 100"
    by blast
  then show ?thesis using h o v by blast
qed

section \<open>Transport service: Play without a URI\<close>

text \<open>
  C5. While the transport service's current URI is empty, the \<open>Play\<close> action raises
  \<open>ValueError('No URI set')\<close>, which \<open>do_POST\<close> turns into a fault, and the whole state of
  the renderer (the session's state, URL, position and duration among it) is the same
  after the call as before: no command is issued.
\<close>

theorem play_without_uri:
  assumes "route path = Some AVTransport" and "action req = ''Play''"
    and "current_uri (avt s) = []"
  shows "handle_action AVTransport E ''Play'' (args req) s = (Inl (ValueError ''No URI set''), s) \<and>
         do_POST msg E path (Some req) s = (SoapFault 501 ''No URI set'', s)"
  using assms by (simp add: do_POST_def avt_handle_action_def handle_Play_def)

theorem play_without_uri_witness:
  "route ''/AVTransport/control'' = Some AVTransport \<and>
   action (request_of ''Play'' AVTransport no_args) = ''Play'' \<and>
   current_uri (avt (init_renderer 50)) = [] \<and>
   do_POST plain_msg ack_engine ''/AVTransport/control''
       (Some (request_of ''Play'' AVTransport no_args)) (init_renderer 50) =
     (SoapFault 501 ''No URI set'', init_renderer 50)"
proof -
  have h: "route ''/AVTransport/control'' = Some AVTransport" by (rule route_avt)
  have a: "action (request_of ''Play'' AVTransport no_args) = ''Play''" by (simp add: request_of_def)
  have u: "current_uri (avt (init_renderer 50)) = []" by (simp add: init_renderer_def)
  show ?thesis
    using h a u play_without_uri [OF h a u, of ack_engine plain_msg] by simp
qed

section \<open>Rendering service: mute\<close>

lemma handle_SetMute_on:
  assumes "arg_get a1 ''DesiredMute'' ''0'' \<in> {''1'', ''true'', ''True''}"
    and "fst (get_volume E (player s)) = Inr v"
  shows "volume_before_mute (rcs (snd (handle_action RenderingControl E ''SetMute'' a1 s))) = Some v"
proof -
  obtain p where g: "get_volume E (player s) = (Inr v, p)"
    using assms(2) by (metis prod.collapse)
  show ?thesis
    using assms(1) g
    by (auto simp: rcs_handle_action_def handle_SetMute_def Let_def split: prod.splits sum.splits)
qed

lemma handle_SetMute_off:
  assumes "arg_get a0 ''DesiredMute'' ''0'' \<notin> {''1'', ''true'', ''True''}"
    and "volume_before_mute (rcs s1) = Some v"
  shows "player (snd (handle_action RenderingControl E ''SetMute'' a0 s1)) =
           snd (set_volume E v (player s1)) \<and>
         (fst (set_volume E v (player s1)) = Inr True \<longrightarrow>
            fst (handle_action RenderingControl E ''SetMute'' a0 s1) = Inr [])"
  using assms
  by (auto simp: rcs_handle_action_def handle_SetMute_def Let_def split: prod.splits sum.splits)

lemma handle_SetMute_never:
  assumes "arg_get a0 ''DesiredMute'' ''0'' \<notin> {''1'', ''true'', ''True''}"
    and "volume_before_mute (rcs s) = None"
  shows "handle_action RenderingControl E ''SetMute'' a0 s =
           (Inr [], s\<lparr>rcs := (rcs s)\<lparr>muted := False\<rparr>\<rparr>)"
  using assms
  by (auto simp: rcs_handle_action_def handle_SetMute_def Let_def)

text \<open>
  C6, as the specification states it, fails. The volume held before muting is what
  \<open>get_volume\<close> returns, the integer part of what the engine reports, stored as it
  comes; \<open>set_volume\<close> clamps to [0,100]. With an engine that reports 130, \<open>SetMute(true)\<close>
  stores 130, and the following \<open>SetMute(false)\<close> succeeds, sends
  \<open>set_property volume 100\<close> and leaves the session volume at 100, not at 130.
\<close>

theorem mute_unmute_clamps:
  "fst (get_volume boosted_engine (player (init_renderer 50))) = Inr 130 \<and>
   volume_before_mute (rcs (snd (handle_action RenderingControl boosted_engine ''SetMute''
      mute_args (init_renderer 50)))) = Some 130 \<and>
   fst (handle_action RenderingControl boosted_engine ''SetMute'' unmute_args
      (snd (handle_action RenderingControl boosted_engine ''SetMute'' mute_args
         (init_renderer 50)))) = Inr [] \<and>
   outgoing (player (snd (handle_action RenderingControl boosted_engine ''SetMute'' unmute_args
      (snd (handle_action RenderingControl boosted_engine ''SetMute'' mute_args
         (init_renderer 50)))))) =
     [([JStr ''get_property'', JStr ''volume''], 1),
      ([JStr ''set_property'', JStr ''volume'', JInt 0], 2),
      ([JStr ''set_property'', JStr ''volume'', JInt 100], 3)] \<and>
   current_volume (player (snd (handle_action RenderingControl boosted_engine ''SetMute''
      unmute_args (snd (handle_action RenderingControl boosted_engine ''SetMute'' mute_args
         (init_renderer 50)))))) = 100"
proof -
  have a: "fst (get_volume boosted_engine (player (init_renderer 50))) = Inr 130" by code_simp
  have b: "volume_before_mute (rcs (snd (handle_action RenderingControl boosted_engine ''SetMute''
      mute_args (init_renderer 50)))) = Some 130"
    by code_simp
  have c: "fst (handle_action RenderingControl boosted_engine ''SetMute'' unmute_args
      (snd (handle_action RenderingControl boosted_engine ''SetMute'' mute_args
         (init_renderer 50)))) = Inr []"
    by code_simp
  have d: "outgoing (player (snd (handle_action RenderingControl boosted_engine ''SetMute'' unmute_args
      (snd (handle_action RenderingControl boosted_engine ''SetMute'' mute_args
         (init_renderer 50)))))) =
     [([JStr ''get_property'', JStr ''volume''], 1),
      ([JStr ''set_property'', JStr ''volume'', JInt 0], 2),
      ([JStr ''set_property'', JStr ''volume'', JInt 100], 3)]"
    by code_simp
  have e: "current_volume (player (snd (handle_action RenderingControl boosted_engine ''SetMute''
      unmute_args (snd (handle_action RenderingControl boosted_engine ''SetMute'' mute_args
         (init_renderer 50)))))) = 100"
    by code_simp
  show ?thesis using a b c d e by blast
qed

text \<open>
  C6, amended. Let \<open>v\<close> be the volume held when \<open>SetMute(true)\<close> is called (what
  \<open>get_volume\<close> returns then), any integer. \<open>SetMute(true)\<close> stores \<open>v\<close>. A following
  \<open>SetMute(false)\<close> issues no command but \<open>set_property volume\<close> with
  \<open>max 0 (min 100 v)\<close>, and when the engine acknowledges it the action succeeds and the
  session volume is \<open>max 0 (min 100 v)\<close>. When \<open>v\<close> is in [0,100] that is exactly \<open>v\<close>:
  the command sent, the last on the wire, carries \<open>v\<close> and the session volume is \<open>v\<close>
  again. In a state \<open>s0\<close> where no mute was ever set, \<open>SetMute(false)\<close> succeeds and
  changes nothing but the mute flag: the player, and so the volume, is untouched.
\<close>

theorem mute_unmute_restores:
  assumes on: "arg_get a1 ''DesiredMute'' ''0'' \<in> {''1'', ''true'', ''True''}"
    and off: "arg_get a0 ''DesiredMute'' ''0'' \<notin> {''1'', ''true'', ''True''}"
    and held: "fst (get_volume E (player s)) = Inr v"
    and s1: "s1 = snd (handle_action RenderingControl E ''SetMute'' a1 s)"
    and s2: "s2 = snd (handle_action RenderingControl E ''SetMute'' a0 s1)"
  shows "volume_before_mute (rcs s1) = Some v \<and>
         (outgoing (player s2) = outgoing (player s1) \<or>
          outgoing (player s2) =
            outgoing (player s1) @
              [([JStr ''set_property'', JStr ''volume'', JInt (max 0 (min 100 v))],
                request_id (player s2))]) \<and>
         ((socket_open (player s1) \<or> connect_ok (E (ipc_calls (player s1)))) \<and>
          exchange (E (ipc_calls (player s1))) = Reply r \<and> reply_success r = Inr True \<longrightarrow>
            fst (handle_action RenderingControl E ''SetMute'' a0 s1) = Inr [] \<and>
            current_volume (player s2) = max 0 (min 100 v)) \<and>
         ((socket_open (player s1) \<or> connect_ok (E (ipc_calls (player s1)))) \<and>
          exchange (E (ipc_calls (player s1))) = Reply r \<and> reply_success r = Inr True \<and>
          0 \<le> v \<and> v \<le> 100 \<longrightarrow>
            fst (handle_action RenderingControl E ''SetMute'' a0 s1) = Inr [] \<and>
            current_volume (player s2) = v \<and>
            last (outgoing (player s2)) =
              ([JStr ''set_property'', JStr ''volume'', JInt v], request_id (player s2))) \<and>
         (volume_before_mute (rcs s0) = None \<longrightarrow>
            handle_action RenderingControl E ''SetMute'' a0 s0 =
              (Inr [], s0\<lparr>rcs := (rcs s0)\<lparr>muted := False\<rparr>\<rparr>))"
proof -
  have snap: "volume_before_mute (rcs s1) = Some v"
    unfolding s1 by (rule handle_SetMute_on [OF on held])
  have off': "player s2 = snd (set_volume E v (player s1)) \<and>
         (fst (set_volume E v (player s1)) = Inr True \<longrightarrow>
            fst (handle_action RenderingControl E ''SetMute'' a0 s1) = Inr [])"
    unfolding s2 by (rule handle_SetMute_off [OF off snap])
  have out: "outgoing (player s2) = outgoing (player s1) \<or>
          outgoing (player s2) =
            outgoing (player s1) @
              [([JStr ''set_property'', JStr ''volume'', JInt (max 0 (min 100 v))],
                request_id (player s2))]"
    using set_volume_outgoing [of E v "player s1"] off' by simp
  have ack: "(socket_open (player s1) \<or> connect_ok (E (ipc_calls (player s1)))) \<and>
          exchange (E (ipc_calls (player s1))) = Reply r \<and> reply_success r = Inr True \<longrightarrow>
            fst (handle_action RenderingControl E ''SetMute'' a0 s1) = Inr [] \<and>
            current_volume (player s2) = max 0 (min 100 v)"
    using set_volume_ack [of "player s1" E r v] off' by simp
  have sent: "(socket_open (player s1) \<or> connect_ok (E (ipc_calls (player s1)))) \<longrightarrow>
          last (outgoing (player s2)) =
            ([JStr ''set_property'', JStr ''volume'', JInt (max 0 (min 100 v))],
             request_id (player s2))"
  proof
    assume c: "socket_open (player s1) \<or> connect_ok (E (ipc_calls (player s1)))"
    have "outgoing (snd (send_command E cmd (player s1))) =
            outgoing (player s1) @ [(cmd, request_id (player s1) + 1)] \<and>
          request_id (snd (send_command E cmd (player s1))) = request_id (player s1) + 1" for cmd
      using c by (auto simp: send_command_def connect_socket_def Let_def split: exchange.splits)
    note sent1 = this
    obtain r1 p1 where sc:
      "send_command E [JStr ''set_property'', JStr ''volume'', JInt (max 0 (min 100 v))] (player s1) =
         (r1, p1)"
      by (cases "send_command E [JStr ''set_property'', JStr ''volume'', JInt (max 0 (min 100 v))]
            (player s1)")
    have p1: "outgoing p1 =
        outgoing (player s1) @
          [([JStr ''set_property'', JStr ''volume'', JInt (max 0 (min 100 v))],
            request_id (player s1) + 1)] \<and>
        request_id p1 = request_id (player s1) + 1"
      using sent1 [of "[JStr ''set_property'', JStr ''volume'', JInt (max 0 (min 100 v))]"] sc
      by simp
    have same: "outgoing (snd (set_volume E v (player s1))) = outgoing p1 \<and>
             request_id (snd (set_volume E v (player s1))) = request_id p1"
      using sc by (simp add: set_volume_def Let_def split: sum.splits bool.splits)
    from p1 same have "outgoing (snd (set_volume E v (player s1))) =
        outgoing (player s1) @
          [([JStr ''set_property'', JStr ''volume'', JInt (max 0 (min 100 v))],
            request_id (snd (set_volume E v (player s1))))]"
      by simp
    then show "last (outgoing (player s2)) =
            ([JStr ''set_property'', JStr ''volume'', JInt (max 0 (min 100 v))],
             request_id (player s2))"
      using off' by simp
  qed
  have exact: "(socket_open (player s1) \<or> connect_ok (E (ipc_calls (player s1)))) \<and>
          exchange (E (ipc_calls (player s1))) = Reply r \<and> reply_success r = Inr True \<and>
          0 \<le> v \<and> v \<le> 100 \<longrightarrow>
            fst (handle_action RenderingControl E ''SetMute'' a0 s1) = Inr [] \<and>
            current_volume (player s2) = v \<and>
            last (outgoing (player s2)) =
              ([JStr ''set_property'', JStr ''volume'', JInt v], request_id (player s2))"
  proof
    assume h: "(socket_open (player s1) \<or> connect_ok (E (ipc_calls (player s1)))) \<and>
          exchange (E (ipc_calls (player s1))) = Reply r \<and> reply_success r = Inr True \<and>
          0 \<le> v \<and> v \<le> 100"
    then have clamp: "max 0 (min 100 v) = v" by simp
    show "fst (handle_action RenderingControl E ''SetMute'' a0 s1) = Inr [] \<and>
            current_volume (player s2) = v \<and>
            last (outgoing (player s2)) =
              ([JStr ''set_property'', JStr ''volume'', JInt v], request_id (player s2))"
      using h ack sent clamp by simp
  qed
  have never: "volume_before_mute (rcs s0) = None \<longrightarrow>
            handle_action RenderingControl E ''SetMute'' a0 s0 =
              (Inr [], s0\<lparr>rcs := (rcs s0)\<lparr>muted := False\<rparr>\<rparr>)"
    using handle_SetMute_never [OF off] by simp
  show ?thesis using snap out ack exact never by blast
qed

theorem mute_unmute_restores_witness:
  "arg_get mute_args ''DesiredMute'' ''0'' \<in> {''1'', ''true'', ''True''} \<and>
   arg_get unmute_args ''DesiredMute'' ''0'' \<notin> {''1'', ''true'', ''True''} \<and>
   fst (get_volume ack_engine (player (init_renderer 50))) = Inr 50 \<and>
   (0::int) \<le> 50 \<and> (50::int) \<le> 100 \<and>
   current_volume (player (snd (handle_action RenderingControl ack_engine ''SetMute'' mute_args
      (init_renderer 50)))) = 0 \<and>
   fst (handle_action RenderingControl ack_engine ''SetMute'' unmute_args
      (snd (handle_action RenderingControl ack_engine ''SetMute'' mute_args (init_renderer 50)))) = Inr [] \<and>
   current_volume (player (snd (handle_action RenderingControl ack_engine ''SetMute'' unmute_args
      (snd (handle_action RenderingControl ack_engine ''SetMute'' mute_args (init_renderer 50)))))) = 50 \<and>
   volume_before_mute (rcs (init_renderer 50)) = None \<and>
   fst (handle_action RenderingControl ack_engine ''SetMute'' unmute_args (init_renderer 50)) = Inr [] \<and>
   player (snd (handle_action RenderingControl ack_engine ''SetMute'' unmute_args (init_renderer 50))) =
     player (init_renderer 50)"
proof -
  have on: "arg_get mute_args ''DesiredMute'' ''0'' \<in> {''1'', ''true'', ''True''}"
    by (simp add: arg_get_def mute_args_def)
  have off: "arg_get unmute_args ''DesiredMute'' ''0'' \<notin> {''1'', ''true'', ''True''}"
    by (simp add: arg_get_def unmute_args_def)
  have held: "fst (get_volume ack_engine (player (init_renderer 50))) = Inr 50" by code_simp
  have range: "(0::int) \<le> 50 \<and> (50::int) \<le> 100" by simp
  have muted0: "current_volume (player (snd (handle_action RenderingControl ack_engine ''SetMute''
      mute_args (init_renderer 50)))) = 0"
    by code_simp
  have ok: "connect_ok (ack_engine n)" for n by (simp add: ack_engine_def)
  have rep: "exchange (ack_engine n) = Reply (JObj [(''error'', JStr ''success'')])" for n
    by (simp add: ack_engine_def)
  have succ: "reply_success (JObj [(''error'', JStr ''success'')]) = Inr True"
    by (simp add: reply_success_def)
  have none: "volume_before_mute (rcs (init_renderer 50)) = None"
    by (simp add: init_renderer_def)
  note inst = mute_unmute_restores [OF on off held refl refl,
      of "JObj [(''error'', JStr ''success'')]" "init_renderer 50"]
  from inst ok rep succ range
  have a: "fst (handle_action RenderingControl ack_engine ''SetMute'' unmute_args
      (snd (handle_action RenderingControl ack_engine ''SetMute'' mute_args (init_renderer 50)))) = Inr [] \<and>
   current_volume (player (snd (handle_action RenderingControl ack_engine ''SetMute'' unmute_args
      (snd (handle_action RenderingControl ack_engine ''SetMute'' mute_args (init_renderer 50)))))) = 50"
    by blast
  from inst none
  have b: "handle_action RenderingControl ack_engine ''SetMute'' unmute_args (init_renderer 50) =
      (Inr [], (init_renderer 50)\<lparr>rcs := (rcs (init_renderer 50))\<lparr>muted := False\<rparr>\<rparr>)"
    by blast
  have c: "fst (handle_action RenderingControl ack_engine ''SetMute'' unmute_args (init_renderer 50)) = Inr [] \<and>
    player (snd (handle_action RenderingControl ack_engine ''SetMute'' unmute_args (init_renderer 50))) =
     player (init_renderer 50)"
    unfolding b by simp
  show ?thesis using on off held range muted0 a none c by blast
qed

section \<open>Playback bridge: request identifiers\<close>

lemma send_command_ids_ok: "ids_ok p \<Longrightarrow> ids_ok (snd (send_command E c p))"
  using send_command_outgoing [of E c p]
  by (fastforce simp: ids_ok_def sorted_wrt_append)

lemma send_commands_ids_ok: "ids_ok p \<Longrightarrow> ids_ok (send_commands E cs p)"
  by (induction cs arbitrary: p) (simp_all add: send_command_ids_ok)

lemma init_ids_ok: "ids_ok (init_mpv v)"
  by (simp add: ids_ok_def init_mpv_def)

text \<open>
  C9. Start from a fresh bridge and issue any sequence of commands, against any engine.
  The identifiers attached to the requests, in the order of issue, increase strictly:
  each is greater than every one before it, and no identifier occurs twice.
\<close>

theorem request_ids_increase:
  "sorted_wrt (<) (map snd (outgoing (send_commands E commands (init_mpv v)))) \<and>
   distinct (map snd (outgoing (send_commands E commands (init_mpv v))))"
proof -
  have "ids_ok (send_commands E commands (init_mpv v))"
    by (rule send_commands_ids_ok [OF init_ids_ok])
  then have s: "sorted_wrt (<) (map snd (outgoing (send_commands E commands (init_mpv v))))"
    by (simp add: ids_ok_def)
  then show ?thesis using strict_sorted_iff by blast
qed

section \<open>Discovery engine: search replies\<close>

lemma accepted_nonempty: "st \<in> accepted_targets srv \<Longrightarrow> st \<noteq> []"
  by (auto simp: accepted_targets_def)

lemma send_msearch_response_lines:
  "send_msearch_response srv addr st = [(concat (map (\<lambda>l. l @ CRLF) (reply_lines srv st)), addr)]"
  by (simp add: send_msearch_response_def reply_lines_def)

lemma handle_msearch_accepted:
  assumes "st_header message = Some st" and "st \<in> accepted_targets srv"
  shows "handle_msearch srv message addr =
           [(concat (map (\<lambda>l. l @ CRLF) (reply_lines srv st)), addr)]"
proof -
  from assms(1) have f: "find_st (py_split message CRLF) = Some st"
    by (simp add: st_header_def)
  from assms(2) have ne: "st \<noteq> []" by (rule accepted_nonempty)
  from assms(2) ne show ?thesis
    unfolding handle_msearch_def f send_msearch_response_lines [symmetric]
    by (simp add: accepted_targets_def)
qed

lemma handle_msearch_other:
  assumes "st_header message = Some st" and "st \<notin> accepted_targets srv"
  shows "handle_msearch srv message addr = []"
proof -
  from assms(1) have f: "find_st (py_split message CRLF) = Some st"
    by (simp add: st_header_def)
  from assms(2) show ?thesis
    unfolding handle_msearch_def f by (simp add: accepted_targets_def)
qed

lemma handle_msearch_none:
  "st_header message = None \<Longrightarrow> handle_msearch srv message addr = []"
  by (simp add: handle_msearch_def st_header_def)

text \<open>
  C7. For every received datagram that is a search request (it contains \<open>M-SEARCH\<close>): if
  its \<open>ST\<close> header is one of the accepted targets, the listener sends exactly one reply,
  to the querying address, whose header block echoes that \<open>ST\<close> value and carries the
  device's location URL and \<open>max-age=1800\<close>; if the \<open>ST\<close> value is any other, or there is
  no \<open>ST\<close> header, it sends nothing.
\<close>

theorem msearch_reply:
  assumes "py_contains ''M-SEARCH'' message"
  shows "(st_header message = Some st \<and> st \<in> accepted_targets srv \<longrightarrow>
            listen_step srv message addr =
              [(concat (map (\<lambda>l. l @ CRLF) (reply_lines srv st)), addr)] \<and>
            ''ST: '' @ st \<in> set (reply_lines srv st) \<and>
            ''LOCATION: '' @ location_url srv \<in> set (reply_lines srv st) \<and>
            ''CACHE-CONTROL: max-age=1800'' \<in> set (reply_lines srv st)) \<and>
         (st_header message = Some st \<and> st \<notin> accepted_targets srv \<longrightarrow>
            listen_step srv message addr = []) \<and>
         (st_header message = None \<longrightarrow> listen_step srv message addr = [])"
proof -
  have step: "listen_step srv message addr = handle_msearch srv message addr"
    using assms by (simp add: listen_step_def)
  have lines: "''ST: '' @ st \<in> set (reply_lines srv st) \<and>
               ''LOCATION: '' @ location_url srv \<in> set (reply_lines srv st) \<and>
               ''CACHE-CONTROL: max-age=1800'' \<in> set (reply_lines srv st)"
    by (simp add: reply_lines_def)
  show ?thesis
    unfolding step
    using lines handle_msearch_accepted handle_msearch_other handle_msearch_none
    by blast
qed

theorem msearch_reply_witness:
  "py_contains ''M-SEARCH'' search_rendering \<and>
   st_header search_rendering = Some ''urn:schemas-upnp-org:service:RenderingControl:1'' \<and>
   ''urn:schemas-upnp-org:service:RenderingControl:1'' \<in> accepted_targets example_ssdp \<and>
   listen_step example_ssdp search_rendering (''192.168.1.20'', 50000) =
     [(concat (map (\<lambda>l. l @ CRLF)
         (reply_lines example_ssdp ''urn:schemas-upnp-org:service:RenderingControl:1'')),
       (''192.168.1.20'', 50000))] \<and>
   py_contains ''M-SEARCH'' search_printer \<and>
   st_header search_printer = Some ''urn:schemas-upnp-org:device:Printer:1'' \<and>
   ''urn:schemas-upnp-org:device:Printer:1'' \<notin> accepted_targets example_ssdp \<and>
   listen_step example_ssdp search_printer (''192.168.1.20'', 50000) = [] \<and>
   py_contains ''M-SEARCH'' search_no_target \<and>
   st_header search_no_target = None \<and>
   listen_step example_ssdp search_no_target (''192.168.1.20'', 50000) = []"
proof -
  have a1: "py_contains ''M-SEARCH'' search_rendering" by code_simp
  have a2: "st_header search_rendering = Some ''urn:schemas-upnp-org:service:RenderingControl:1''"
    by code_simp
  have a3: "''urn:schemas-upnp-org:service:RenderingControl:1'' \<in> accepted_targets example_ssdp"
    by (simp add: accepted_targets_def)
  have b1: "py_contains ''M-SEARCH'' search_printer" by code_simp
  have b2: "st_header search_printer = Some ''urn:schemas-upnp-org:device:Printer:1''"
    by code_simp
  have b3: "''urn:schemas-upnp-org:device:Printer:1'' \<notin> accepted_targets example_ssdp"
    by (simp add: accepted_targets_def example_ssdp_def)
  have c1: "py_contains ''M-SEARCH'' search_no_target" by code_simp
  have c2: "st_header search_no_target = None" by code_simp
  show ?thesis
    using a1 a2 a3 b1 b2 b3 c1 c2
      msearch_reply [OF a1, of "''urn:schemas-upnp-org:service:RenderingControl:1''"
        example_ssdp "(''192.168.1.20'', 50000)"]
      msearch_reply [OF b1, of "''urn:schemas-upnp-org:device:Printer:1''"
        example_ssdp "(''192.168.1.20'', 50000)"]
      msearch_reply [OF c1, of "''x''" example_ssdp "(''192.168.1.20'', 50000)"]
    by simp
qed

section \<open>Discovery engine: withdrawal on shutdown\<close>

text \<open>
  C8. On shutdown the discovery engine should withdraw every advertised type, six
  notifications in all. The code does not: \<open>_send_byebye\<close> sends three notifications, for
  the first three of the six types that \<open>_send_alive\<close> announces, and none for the three
  service types.
\<close>

theorem byebye_omits_services:
  "length (send_alive srv) = 6 \<and>
   length (send_byebye srv) = 3 \<and>
   byebye_services srv = take 3 (alive_services srv) \<and>
   ''urn:schemas-upnp-org:service:AVTransport:1'' \<in> set (alive_services srv) - set (byebye_services srv) \<and>
   ''urn:schemas-upnp-org:service:RenderingControl:1'' \<in> set (alive_services srv) - set (byebye_services srv) \<and>
   ''urn:schemas-upnp-org:service:ConnectionManager:1'' \<in> set (alive_services srv) - set (byebye_services srv)"
  by (simp add: send_alive_def send_byebye_def alive_services_def byebye_services_def)

section \<open>Time-code codec: arithmetic below \<open>2 ^ 53\<close>\<close>

text \<open>
  Every integer from 0 to \<open>2 ^ 53\<close> is a double, so rounding leaves it as it is, and
  the floor division and the remainder of a double in that range by 3600 or 60 are
  exact.
\<close>

lemma bitlen_le: "0 \<le> n \<Longrightarrow> n < 2 ^ k \<Longrightarrow> bitlen n \<le> k"
proof (induction k arbitrary: n)
  case 0
  then have "n = 0" by simp
  then show ?case by (simp add: bitlen.simps)
next
  case (Suc k)
  show ?case
  proof (cases "n \<le> 0")
    case True
    then show ?thesis by (simp add: bitlen.simps)
  next
    case False
    have "n div 2 < 2 ^ k" using Suc.prems by simp
    moreover have "0 \<le> n div 2" using Suc.prems by simp
    ultimately have "bitlen (n div 2) \<le> k" using Suc.IH by blast
    then show ?thesis using False by (subst bitlen.simps) simp
  qed
qed

lemma round_half_even_int: "round_half_even (of_int m) = m"
  by (simp add: round_half_even_def)

lemma round_grid_int:
  assumes "0 \<le> n" and "n < 2 ^ 53"
  shows "round_grid (of_int n) = of_int n"
proof (cases "n = 0")
  case True
  then show ?thesis by (simp add: round_grid_def)
next
  case False
  then have pos: "0 < n" using assms by simp
  have bl: "bitlen n \<le> 53" using assms by (rule bitlen_le)
  have il: "ilog2 (of_int n) = int (bitlen n) - 1"
    using pos by (simp add: ilog2_def)
  define j where "j = max (ilog2 (of_int n)) (- 1022) - 52"
  have jle: "j \<le> 0" using bl il by (simp add: j_def)
  define k where "k = nat (- j)"
  have u: "pow2 j = 1 / 2 ^ k"
    using jle by (cases "j = 0") (simp_all add: pow2_def k_def)
  have q: "(of_int n :: rat) / pow2 j = of_int (n * 2 ^ k)"
    by (simp add: u)
  have "round_grid (of_int n) = sgn (of_int n :: rat) * (of_int (round_half_even (of_int n / pow2 j)) * pow2 j)"
    using pos by (simp add: round_grid_def Let_def j_def)
  also have "\<dots> = of_int (n * 2 ^ k) * (1 / 2 ^ k)"
  proof -
    have "round_half_even (of_int n / pow2 j) = n * 2 ^ k"
      by (simp only: q round_half_even_int)
    then show ?thesis using pos by (simp add: u)
  qed
  also have "\<dots> = of_int n" by simp
  finally show ?thesis .
qed

lemma floor_div_const:
  fixes x :: rat
  assumes "0 < c"
  shows "\<lfloor>x / of_int c\<rfloor> = \<lfloor>x\<rfloor> div c"
proof (rule floor_unique)
  define n where "n = \<lfloor>x\<rfloor>"
  have n1: "of_int n \<le> x" by (simp add: n_def)
  have n2: "x < of_int n + 1" using floor_correct [of x] by (simp add: n_def)
  have cpos: "(0::rat) < of_int c" using assms by simp
  have dm: "n = c * (n div c) + n mod c" by simp
  have m0: "0 \<le> n mod c" and m1: "n mod c < c" using assms by simp_all
  have a: "c * (n div c) \<le> n" using dm m0 by linarith
  have b: "n < c * (n div c) + c" using dm m1 by linarith
  have "(of_int (c * (n div c)) :: rat) \<le> of_int n" using a by (simp only: of_int_le_iff)
  then have "of_int c * of_int (n div c) \<le> x" using n1 by simp
  then show "of_int (\<lfloor>x\<rfloor> div c) \<le> x / of_int c"
    using cpos by (simp add: n_def pos_le_divide_eq mult.commute)
  have "n + 1 \<le> c * (n div c) + c" using b by simp
  then have "(of_int (n + 1) :: rat) \<le> of_int (c * (n div c) + c)" by (simp only: of_int_le_iff)
  then have "x < of_int c * (of_int (n div c) + 1)" using n2 by (simp add: algebra_simps)
  then show "x / of_int c < of_int (\<lfloor>x\<rfloor> div c) + 1"
    using cpos by (simp add: n_def pos_divide_less_eq mult.commute)
qed


lemma fmod_nonneg:
  assumes "0 \<le> x" and "0 < c"
  shows "fmod x (of_int c) = x - of_int c * of_int (\<lfloor>x\<rfloor> div c)"
proof -
  have "0 \<le> x / of_int c" using assms by simp
  then have "trunc (x / of_int c) = \<lfloor>x / of_int c\<rfloor>" by (simp add: trunc_def)
  then show ?thesis using assms(2) by (simp add: fmod_def floor_div_const)
qed

lemma float_divmod_exact:
  assumes x0: "0 \<le> x" and x53: "x < 2 ^ 53" and c1: "1 \<le> c"
  shows "float_divmod x (of_int c) =
           (of_int (\<lfloor>x\<rfloor> div c), x - of_int c * of_int (\<lfloor>x\<rfloor> div c))"
proof -
  define n where "n = \<lfloor>x\<rfloor>"
  define k where "k = n div c"
  have cpos: "0 < c" using c1 by simp
  have n0: "0 \<le> n" using x0 by (simp add: n_def)
  have n53: "n < 2 ^ 53"
  proof -
    have "of_int n \<le> x" by (simp add: n_def)
    then have "(of_int n :: rat) < of_int (2 ^ 53)" using x53 by simp
    then show ?thesis by (simp only: of_int_less_iff)
  qed
  have k0: "0 \<le> k" using n0 cpos by (simp add: k_def pos_imp_zdiv_nonneg_iff)
  have dm: "n = c * k + n mod c" by (simp add: k_def)
  have m0: "0 \<le> n mod c" using cpos by simp
  have ck_le: "c * k \<le> n" using dm m0 by linarith
  have ck0: "0 \<le> c * k" using k0 cpos by simp
  have ck53: "c * k < 2 ^ 53" using ck_le n53 by linarith
  have k_le: "k \<le> c * k" using k0 c1 by (simp add: mult_le_cancel_right1)
  have k53: "k < 2 ^ 53" using k_le ck53 by linarith
  have mod0: "fmod x (of_int c) = x - of_int c * of_int k"
    using fmod_nonneg [OF x0 cpos] by (simp add: n_def k_def)
  have modge: "0 \<le> x - of_int c * of_int k"
  proof -
    have "(of_int (c * k) :: rat) \<le> of_int n" using ck_le by (simp only: of_int_le_iff)
    moreover have "of_int n \<le> x" by (simp add: n_def)
    ultimately show ?thesis by simp
  qed
  have sub: "x - (x - of_int c * of_int k) = of_int (c * k)" by simp
  have r1: "round_grid (x - (x - of_int c * of_int k)) = of_int (c * k)"
    unfolding sub using ck0 ck53 by (rule round_grid_int)
  have quot: "(of_int (c * k) :: rat) / of_int c = of_int k" using cpos by simp
  have r2: "round_grid (of_int (c * k) / of_int c) = of_int k"
    unfolding quot using k0 k53 by (rule round_grid_int)
  have adj: "\<not> (x - of_int c * of_int k \<noteq> 0 \<and>
                ((of_int c :: rat) < 0) \<noteq> (x - of_int c * of_int k < 0))"
    using modge cpos by simp
  have fl: "(if (of_int k :: rat) \<noteq> 0
             then (if 1 / 2 < round_grid (of_int k - of_int \<lfloor>(of_int k :: rat)\<rfloor>)
                   then round_grid (of_int \<lfloor>(of_int k :: rat)\<rfloor> + 1)
                   else of_int \<lfloor>(of_int k :: rat)\<rfloor>)
             else 0) = (of_int k :: rat)"
    by (simp add: round_grid_def)
  have "float_divmod x (of_int c) = (of_int k, x - of_int c * of_int k)"
    unfolding float_divmod_def Let_def mod0 r1 r2 if_not_P [OF adj] fl ..
  then show ?thesis by (simp add: n_def k_def)
qed

lemma trunc_of_int: "trunc (of_int k) = k"
  by (simp add: trunc_def)

lemma format_time_float:
  assumes x0: "0 \<le> x" and x53: "x < 2 ^ 53"
  shows "format_time (PFloat (Finite x)) =
           Inr (py_str_int (\<lfloor>x\<rfloor> div 3600) @ '':'' @ fmt_02d (\<lfloor>x\<rfloor> mod 3600 div 60) @ '':'' @
                fmt_02d (\<lfloor>x\<rfloor> mod 60))"
proof -
  define n where "n = \<lfloor>x\<rfloor>"
  define y where "y = x - 3600 * of_int (n div 3600)"
  have dm1: "float_divmod x 3600 = (of_int (n div 3600), y)"
    using float_divmod_exact [OF x0 x53, of 3600] by (simp add: n_def y_def)
  have dm3: "float_divmod x 60 = (of_int (n div 60), x - 60 * of_int (n div 60))"
    using float_divmod_exact [OF x0 x53, of 60] by (simp add: n_def)
  have ny: "\<lfloor>y\<rfloor> = n mod 3600"
  proof -
    have "y = x + of_int (- (3600 * (n div 3600)))" by (simp add: y_def)
    then have "\<lfloor>y\<rfloor> = n + - (3600 * (n div 3600))"
      by (simp only: floor_add_int [symmetric] n_def)
    then show ?thesis by (simp add: minus_mult_div_eq_mod)
  qed
  have y0: "0 \<le> y"
  proof -
    have "0 \<le> \<lfloor>y\<rfloor>" unfolding ny by simp
    then show ?thesis by simp
  qed
  have y53: "y < 2 ^ 53"
  proof -
    have "\<lfloor>y\<rfloor> < 3600" unfolding ny by simp
    then have "y < 3600" by (simp add: floor_less_iff)
    then show ?thesis by simp
  qed
  have dm2: "fst (float_divmod y 60) = of_int (n mod 3600 div 60)"
    using float_divmod_exact [OF y0 y53, of 60] by (simp add: ny)
  have secs: "\<lfloor>x - 60 * of_int (n div 60)\<rfloor> = n mod 60"
  proof -
    have "x - 60 * of_int (n div 60) = x + of_int (- (60 * (n div 60)))" by simp
    then have "\<lfloor>x - 60 * of_int (n div 60)\<rfloor> = n + - (60 * (n div 60))"
      by (simp only: floor_add_int [symmetric] n_def)
    then show ?thesis by (simp add: minus_mult_div_eq_mod)
  qed
  have s0: "0 \<le> x - 60 * of_int (n div 60)"
  proof -
    have "0 \<le> \<lfloor>x - 60 * of_int (n div 60)\<rfloor>" unfolding secs by simp
    then show ?thesis by (simp only: zero_le_floor)
  qed
  have tsecs: "trunc (x - 60 * of_int (n div 60)) = n mod 60"
    using s0 secs by (simp add: trunc_def)
  have neg: "\<not> x < 0" using x0 by simp
  show ?thesis
    using neg by (simp add: format_time_def dm1 dm2 dm3 trunc_of_int tsecs n_def [symmetric])
qed

section \<open>Time-code codec: digits and fields\<close>

text \<open>
  The decimal digits \<open>str\<close> writes are read back by \<open>int\<close>, and splitting a time code
  at its colons gives back the fields it was built from.
\<close>

lemma digit_char_digit:
  assumes "0 \<le> d" and "d < 10"
  shows "is_digit (digit_char d) \<and> digit_val (digit_char d) = d"
proof -
  have "d = 0 \<or> d = 1 \<or> d = 2 \<or> d = 3 \<or> d = 4 \<or> d = 5 \<or> d = 6 \<or> d = 7 \<or> d = 8 \<or> d = 9"
    using assms by arith
  then show ?thesis
    by (auto simp: is_digit_def digit_char_def digit_val_def)
qed

lemma is_digit_plain:
  "is_digit c \<Longrightarrow> c \<noteq> CHR '':'' \<and> c \<noteq> CHR ''_'' \<and> c \<noteq> CHR ''-'' \<and> c \<noteq> CHR ''+'' \<and> \<not> num_space c"
  by (auto simp: is_digit_def num_space_def)

lemma digits_of_int_nonempty: "digits_of_int n \<noteq> []"
  by (subst digits_of_int.simps) simp

lemma digits_of_int_digits: "0 \<le> n \<Longrightarrow> c \<in> set (digits_of_int n) \<Longrightarrow> is_digit c"
proof (induction n arbitrary: c rule: digits_of_int.induct)
  case (1 n)
  show ?case
  proof (cases "n < 10")
    case True
    then have "digits_of_int n = [digit_char n]" by (subst digits_of_int.simps) simp
    then show ?thesis using "1.prems" True digit_char_digit by simp
  next
    case False
    then have eq: "digits_of_int n = digits_of_int (n div 10) @ [digit_char (n mod 10)]"
      by (subst digits_of_int.simps) simp
    have d: "is_digit (digit_char (n mod 10))" using digit_char_digit [of "n mod 10"] by simp
    have "0 \<le> n div 10" using "1.prems"(1) by simp
    then show ?thesis using "1.IH" [OF False] "1.prems"(2) d unfolding eq by auto
  qed
qed

lemma int_of_digits_snoc: "int_of_digits (ds @ [c]) = 10 * int_of_digits ds + digit_val c"
  by (simp add: int_of_digits_def)

lemma int_of_digits_of_int: "0 \<le> n \<Longrightarrow> int_of_digits (digits_of_int n) = n"
proof (induction n rule: digits_of_int.induct)
  case (1 n)
  show ?case
  proof (cases "n < 10")
    case True
    then have "digits_of_int n = [digit_char n]" by (subst digits_of_int.simps) simp
    then show ?thesis using "1.prems" True digit_char_digit by (simp add: int_of_digits_def)
  next
    case False
    then have eq: "digits_of_int n = digits_of_int (n div 10) @ [digit_char (n mod 10)]"
      by (subst digits_of_int.simps) simp
    have d: "digit_val (digit_char (n mod 10)) = n mod 10"
      using digit_char_digit [of "n mod 10"] by simp
    have "0 \<le> n div 10" using "1.prems" by simp
    then have "int_of_digits (digits_of_int (n div 10)) = n div 10" using "1.IH" [OF False] by simp
    then show ?thesis unfolding eq int_of_digits_snoc d by simp
  qed
qed

lemma length_digits_of_int: "n < 10 ^ k \<Longrightarrow> 1 \<le> k \<Longrightarrow> length (digits_of_int n) \<le> k"
proof (induction n arbitrary: k rule: digits_of_int.induct)
  case (1 n)
  show ?case
  proof (cases "n < 10")
    case True
    then have "digits_of_int n = [digit_char n]" by (subst digits_of_int.simps) simp
    then show ?thesis using "1.prems" by simp
  next
    case False
    then have eq: "digits_of_int n = digits_of_int (n div 10) @ [digit_char (n mod 10)]"
      by (subst digits_of_int.simps) simp
    obtain j where k: "k = Suc j" using "1.prems"(2) by (cases k) auto
    have j1: "1 \<le> j"
    proof (rule ccontr)
      assume "\<not> 1 \<le> j"
      then have "j = 0" by simp
      then show False using "1.prems"(1) False k by simp
    qed
    have "n div 10 < 10 ^ j" using "1.prems"(1) k by simp
    then have "length (digits_of_int (n div 10)) \<le> j" using "1.IH" [OF False _ j1] by simp
    then show ?thesis unfolding eq k by simp
  qed
qed


lemma digits_ok_digits: "\<forall>c \<in> set ds. is_digit c \<Longrightarrow> digits_ok b ds = (b \<or> ds \<noteq> [])"
  by (induction ds arbitrary: b) auto

lemma num_strip_digits:
  assumes "ds \<noteq> []" and "\<forall>c \<in> set ds. is_digit c"
  shows "num_strip ds = ds"
proof -
  have h: "\<not> num_space (hd ds)" using assms is_digit_plain by (cases ds) auto
  have a: "dropWhile num_space ds = ds" using assms(1) h by (cases ds) auto
  obtain ys y where ds: "ds = ys @ [y]" using assms(1) by (cases ds rule: rev_cases) auto
  have "\<not> num_space y" using assms(2) is_digit_plain ds by auto
  then have b: "dropWhile num_space (rev ds) = rev ds" by (simp add: ds)
  show ?thesis by (simp add: num_strip_def a b)
qed

lemma int_of_str_digits:
  assumes "ds \<noteq> []" and "\<forall>c \<in> set ds. is_digit c" and "length ds \<le> 640"
  shows "int_of_str ds = Inr (int_of_digits ds)"
proof -
  obtain c cs where ds: "ds = c # cs" using assms(1) by (cases ds) auto
  have c: "c \<noteq> CHR ''-'' \<and> c \<noteq> CHR ''+''" using assms(2) is_digit_plain ds by auto
  have sg: "split_sign ds = (False, ds)" using c by (simp add: split_sign_def ds)
  have f: "filter (\<lambda>c. c \<noteq> CHR ''_'') ds = ds"
    using assms(2) is_digit_plain by (simp add: filter_id_conv)
  have ok: "digits_ok False ds" using assms(1,2) by (simp add: digits_ok_digits)
  show ?thesis
    using assms(3) ok by (simp add: int_of_str_def num_strip_digits [OF assms(1,2)] sg f)
qed

lemma length_digits_640: "0 \<le> n \<Longrightarrow> n < 2 ^ 53 \<Longrightarrow> length (digits_of_int n) \<le> 640"
proof -
  assume "0 \<le> n" and "n < 2 ^ 53"
  then have "n < 10 ^ 16" by simp
  then have "length (digits_of_int n) \<le> 16" by (rule length_digits_of_int) simp
  then show ?thesis by simp
qed

lemma int_of_str_py_str:
  assumes "0 \<le> n" and "n < 2 ^ 53"
  shows "int_of_str (py_str_int n) = Inr n"
proof -
  have e: "py_str_int n = digits_of_int n" using assms(1) by (simp add: py_str_int_def)
  have d: "\<forall>c \<in> set (digits_of_int n). is_digit c" using digits_of_int_digits [OF assms(1)] by blast
  show ?thesis
    unfolding e
    using int_of_str_digits [OF digits_of_int_nonempty d length_digits_640 [OF assms]]
      int_of_digits_of_int [OF assms(1)] by simp
qed

lemma fmt_02d_digits:
  assumes "0 \<le> m" and "m < 60"
  shows "int_of_str (fmt_02d m) = Inr m \<and> CHR '':'' \<notin> set (fmt_02d m)"
proof -
  have d: "\<forall>c \<in> set (digits_of_int m). is_digit c" using digits_of_int_digits [OF assms(1)] by blast
  have z: "is_digit (CHR ''0'')" by (simp add: is_digit_def)
  have zv: "digit_val (CHR ''0'') = 0" by (simp add: digit_val_def)
  have len: "length (digits_of_int m) \<le> 2"
    using assms by (intro length_digits_of_int) simp_all
  show ?thesis
  proof (cases "m < 10")
    case True
    then have e: "fmt_02d m = CHR ''0'' # digits_of_int m"
      using assms(1) by (simp add: fmt_02d_def py_str_int_def)
    have dd: "\<forall>c \<in> set (CHR ''0'' # digits_of_int m). is_digit c" using d z by simp
    have l2: "length (CHR ''0'' # digits_of_int m) \<le> 640" using len by simp
    have v: "int_of_digits (CHR ''0'' # digits_of_int m) = m"
    proof -
      have "digits_of_int m = [digit_char m]" using True by (subst digits_of_int.simps) simp
      then show ?thesis
        using digit_char_digit [OF assms(1) True] by (simp add: int_of_digits_def zv)
    qed
    have "int_of_str (CHR ''0'' # digits_of_int m) = Inr m"
      using int_of_str_digits [OF _ dd l2] v by simp
    then show ?thesis unfolding e using dd is_digit_plain by blast
  next
    case False
    then have e: "fmt_02d m = digits_of_int m"
      using assms(1) by (simp add: fmt_02d_def py_str_int_def)
    have l2: "length (digits_of_int m) \<le> 640" using len by simp
    have "int_of_str (digits_of_int m) = Inr m"
      using int_of_str_digits [OF digits_of_int_nonempty d l2] int_of_digits_of_int [OF assms(1)]
      by simp
    then show ?thesis unfolding e using d is_digit_plain by blast
  qed
qed

lemma py_str_int_no_colon: "0 \<le> n \<Longrightarrow> CHR '':'' \<notin> set (py_str_int n)"
  using digits_of_int_digits is_digit_plain by (auto simp: py_str_int_def)

lemma py_split_aux_no_sep:
  "CHR '':'' \<notin> set xs \<Longrightarrow> py_split_aux '':'' cur (xs @ rest) = py_split_aux '':'' (cur @ xs) rest"
proof (induction xs arbitrary: cur)
  case Nil
  then show ?case by simp
next
  case (Cons x xs)
  from Cons.prems have "x \<noteq> CHR '':''" by auto
  then have "\<not> startswith (x # xs @ rest) '':''" by (simp add: startswith_def)
  moreover from Cons.prems have "CHR '':'' \<notin> set xs" by simp
  ultimately show ?case using Cons.IH [of "cur @ [x]"] by simp
qed

lemma py_split_aux_sep:
  "py_split_aux '':'' cur (CHR '':'' # rest) = cur # py_split_aux '':'' [] rest"
  by (simp add: startswith_def)

lemma py_split_three:
  assumes "CHR '':'' \<notin> set a" and "CHR '':'' \<notin> set b" and "CHR '':'' \<notin> set c"
  shows "py_split (a @ '':'' @ b @ '':'' @ c) '':'' = [a, b, c]"
proof -
  have "py_split_aux '':'' [] (a @ (CHR '':'' # (b @ (CHR '':'' # c)))) =
        py_split_aux '':'' a (CHR '':'' # (b @ (CHR '':'' # c)))"
    using py_split_aux_no_sep [OF assms(1), of "[]"] by simp
  also have "\<dots> = a # py_split_aux '':'' [] (b @ (CHR '':'' # c))" by (rule py_split_aux_sep)
  also have "\<dots> = a # py_split_aux '':'' b (CHR '':'' # c)"
    using py_split_aux_no_sep [OF assms(2), of "[]"] by simp
  also have "\<dots> = a # b # py_split_aux '':'' [] (c @ [])"
    by (simp only: py_split_aux_sep append_Nil2)
  also have "\<dots> = a # b # py_split_aux '':'' c []"
    using py_split_aux_no_sep [OF assms(3), of "[]" "[]"] by simp
  finally show ?thesis by (simp add: py_split_def)
qed

section \<open>Time-code codec: round trip\<close>

lemma parse_time_fields:
  assumes "0 \<le> h" and "h < 2 ^ 53" and "0 \<le> m" and "m < 60" and "0 \<le> k" and "k < 60"
  shows "parse_time (py_str_int h @ '':'' @ fmt_02d m @ '':'' @ fmt_02d k) =
           PInt (h * 3600 + m * 60 + k)"
proof -
  have sp: "py_split (py_str_int h @ '':'' @ fmt_02d m @ '':'' @ fmt_02d k) '':'' =
              [py_str_int h, fmt_02d m, fmt_02d k]"
    using py_str_int_no_colon [OF assms(1)] fmt_02d_digits [OF assms(3,4)]
      fmt_02d_digits [OF assms(5,6)]
    by (intro py_split_three) simp_all
  have mi: "map_int [py_str_int h, fmt_02d m, fmt_02d k] = Inr [h, m, k]"
    using int_of_str_py_str [OF assms(1,2)] fmt_02d_digits [OF assms(3,4)]
      fmt_02d_digits [OF assms(5,6)]
    by simp
  show ?thesis
    unfolding parse_time_def parse_time_try_def sp by (simp add: mi del: map_int.simps)
qed

text \<open>
  C3, as the specification states it, fails. The float \<open>2 ^ 100\<close> is finite and not
  negative; \<open>format_time\<close> writes it as \<open>352125166730063722332553216:36:16\<close>, because
  the floor division by 3600 rounds its quotient to a double, and \<open>parse_time\<close> reads
  that text as \<open>2 ^ 100 - 1099511625600\<close>, which is not the float rounded down.
\<close>

theorem time_roundtrip_fails:
  "format_time (PFloat (Finite (2 ^ 100))) = Inr ''352125166730063722332553216:36:16'' \<and>
   parse_time ''352125166730063722332553216:36:16'' = PInt (2 ^ 100 - 1099511625600) \<and>
   parse_time ''352125166730063722332553216:36:16'' \<noteq> PInt \<lfloor>(2::rat) ^ 100\<rfloor>"
proof -
  have f: "format_time (PFloat (Finite (2 ^ 100))) = Inr ''352125166730063722332553216:36:16''"
    by code_simp
  have p: "parse_time ''352125166730063722332553216:36:16'' = PInt (2 ^ 100 - 1099511625600)"
    by code_simp
  have "\<lfloor>(2::rat) ^ 100\<rfloor> = 2 ^ 100" by (metis floor_numeral_power)
  then have "PInt (2 ^ 100 - 1099511625600) \<noteq> PInt \<lfloor>(2::rat) ^ 100\<rfloor>" by simp
  then show ?thesis using f p by simp
qed

text \<open>
  C3, amended. For every finite float \<open>seconds\<close> with \<open>0 \<le> seconds < 2 ^ 53\<close>,
  \<open>format_time\<close> returns a string and \<open>parse_time\<close> of that string is \<open>seconds\<close> rounded
  down to a whole number of seconds. For every negative float and for both infinities
  \<open>format_time\<close> returns \<open>00:00:00\<close>.
\<close>

theorem time_roundtrip:
  "(0 \<le> x \<and> x < 2 ^ 53 \<longrightarrow>
      (\<exists>s. format_time (PFloat (Finite x)) = Inr s \<and> parse_time s = PInt \<lfloor>x\<rfloor>)) \<and>
   (x < 0 \<longrightarrow> format_time (PFloat (Finite x)) = Inr ''00:00:00'') \<and>
   format_time (PFloat PosInf) = Inr ''00:00:00'' \<and>
   format_time (PFloat NegInf) = Inr ''00:00:00''"
proof (intro conjI impI)
  assume a: "0 \<le> x \<and> x < 2 ^ 53"
  define n where "n = \<lfloor>x\<rfloor>"
  have n0: "0 \<le> n" using a by (simp add: n_def)
  have n53: "n < 2 ^ 53"
  proof -
    have "of_int n \<le> x" by (simp add: n_def)
    then have "(of_int n :: rat) < of_int (2 ^ 53)" using a by simp
    then show ?thesis by (simp only: of_int_less_iff)
  qed
  have h0: "0 \<le> n div 3600" using n0 by (simp add: pos_imp_zdiv_nonneg_iff)
  have "n = 3600 * (n div 3600) + n mod 3600" by simp
  moreover have "0 \<le> n mod 3600" by simp
  ultimately have "n div 3600 \<le> n" using h0 by linarith
  then have h53: "n div 3600 < 2 ^ 53" using n53 by linarith
  have m0: "0 \<le> n mod 3600 div 60" by (simp add: pos_imp_zdiv_nonneg_iff)
  have "n mod 3600 < 3600" by simp
  moreover have "n mod 3600 = 60 * (n mod 3600 div 60) + n mod 3600 mod 60" by simp
  moreover have "0 \<le> n mod 3600 mod 60" by simp
  ultimately have m60: "n mod 3600 div 60 < 60" by linarith
  have k0: "0 \<le> n mod 60" and k60: "n mod 60 < 60" by simp_all
  have mm: "n mod 3600 mod 60 = n mod 60" by (simp add: mod_mod_cancel)
  have sum: "n div 3600 * 3600 + n mod 3600 div 60 * 60 + n mod 60 = n"
  proof -
    have "n = n div 3600 * 3600 + n mod 3600" by simp
    moreover have "n mod 3600 = n mod 3600 div 60 * 60 + n mod 3600 mod 60" by simp
    ultimately show ?thesis using mm by linarith
  qed
  have f: "format_time (PFloat (Finite x)) =
      Inr (py_str_int (n div 3600) @ '':'' @ fmt_02d (n mod 3600 div 60) @ '':'' @ fmt_02d (n mod 60))"
    using format_time_float [of x] a by (simp add: n_def)
  have p: "parse_time (py_str_int (n div 3600) @ '':'' @ fmt_02d (n mod 3600 div 60) @ '':'' @
      fmt_02d (n mod 60)) = PInt n"
    using parse_time_fields [OF h0 h53 m0 m60 k0 k60] sum by simp
  show "\<exists>s. format_time (PFloat (Finite x)) = Inr s \<and> parse_time s = PInt \<lfloor>x\<rfloor>"
    using f p by (simp add: n_def)
next
  assume "x < 0"
  then show "format_time (PFloat (Finite x)) = Inr ''00:00:00''" by (simp add: format_time_def)
next
  show "format_time (PFloat PosInf) = Inr ''00:00:00''" by (simp add: format_time_def)
  show "format_time (PFloat NegInf) = Inr ''00:00:00''" by (simp add: format_time_def)
qed

theorem time_roundtrip_witness:
  "(0::rat) \<le> 7331 / 2 \<and> (7331 / 2 :: rat) < 2 ^ 53 \<and>
   format_time (PFloat (Finite (7331 / 2))) = Inr ''1:01:05'' \<and>
   parse_time ''1:01:05'' = PInt 3665 \<and>
   (- 1 / 2 :: rat) < 0 \<and>
   format_time (PFloat (Finite (- 1 / 2))) = Inr ''00:00:00''"
proof -
  have r: "(0::rat) \<le> 7331 / 2 \<and> (7331 / 2 :: rat) < 2 ^ 53" by simp
  have fl: "\<lfloor>7331 / 2 :: rat\<rfloor> = 3665" by (simp add: floor_unique)
  have f: "format_time (PFloat (Finite (7331 / 2))) = Inr ''1:01:05''" by code_simp
  have ng: "(- 1 / 2 :: rat) < 0" by simp
  from time_roundtrip [of "7331 / 2"] r f fl
  have p: "parse_time ''1:01:05'' = PInt 3665" by simp
  from time_roundtrip [of "- 1 / 2"] ng
  have z: "format_time (PFloat (Finite (- 1 / 2))) = Inr ''00:00:00''" by blast
  show ?thesis using r f p ng z by blast
qed

section \<open>Time-code codec: malformed input\<close>










end
